theory Spec2Isabelle
  imports Main "HOL-Library.AList" "HOL-Library.List_Lexorder" "HOL-Library.Char_ord"
begin

section \<open>Python values, exceptions and dictionaries\<close>

text \<open>
  The scanners are Python scripts.  Text is modelled as \<^typ>\<open>string\<close>; a \<^typ>\<open>char\<close> is read
  as a Unicode code point below 256.  A value loaded from YAML or JSON, and every field of a
  finding, is a \<open>pyval\<close>.  A Python \<open>dict\<close> is an association list in insertion order whose
  keys are strings; a raised exception is the \<open>Inl\<close> branch of a sum.
\<close>

datatype exn =
    OSError string
  | ParseError string
  | TypeError string
  | AttributeError string
  | ValueError string
  | KeyError string
  | NameError string

datatype pyval =
    PNone
  | PBool bool
  | PInt int
  | PStr string
  | PList "pyval list"
  | PDict "(string \<times> pyval) list"

type_synonym pydict = "(string \<times> pyval) list"

text \<open>\<open>d.get(k, default)\<close> and \<open>d.get(k)\<close> on a dictionary.\<close>

definition dict_get :: "pydict \<Rightarrow> string \<Rightarrow> pyval \<Rightarrow> pyval" where
  "dict_get d k dflt = (case map_of d k of None \<Rightarrow> dflt | Some v \<Rightarrow> v)"

text \<open>
  The dictionary display \<open>{**a, **b}\<close>: both operands must be mappings; the keys of \<open>a\<close> keep
  their places, a key of \<open>b\<close> already present overwrites the value in place, a new key is
  appended.
\<close>

definition dict_merge :: "pyval \<Rightarrow> pyval \<Rightarrow> exn + pydict" where
  "dict_merge a b =
     (case a of
        PDict da \<Rightarrow>
          (case b of
             PDict db \<Rightarrow> Inr (fold (\<lambda>(k, v). AList.update k v) db da)
           | _ \<Rightarrow> Inl (TypeError ''object is not a mapping''))
      | _ \<Rightarrow> Inl (TypeError ''object is not a mapping''))"

text \<open>\<open>str(e)\<close> of a caught exception: its message.\<close>

fun str_exn :: "exn \<Rightarrow> string" where
  "str_exn (OSError m) = m"
| "str_exn (ParseError m) = m"
| "str_exn (TypeError m) = m"
| "str_exn (AttributeError m) = m"
| "str_exn (ValueError m) = m"
| "str_exn (KeyError m) = m"
| "str_exn (NameError m) = m"

text \<open>Truth value of an object, as \<open>if x:\<close> and \<open>x and y\<close> test it.\<close>

fun truthy :: "pyval \<Rightarrow> bool" where
  "truthy PNone = False"
| "truthy (PBool b) = b"
| "truthy (PInt n) = (n \<noteq> 0)"
| "truthy (PStr s) = (s \<noteq> [])"
| "truthy (PList xs) = (xs \<noteq> [])"
| "truthy (PDict d) = (d \<noteq> [])"

text \<open>
  \<open>==\<close> on loaded values: \<open>True\<close> and \<open>False\<close> equal the integers 1 and 0, lists are
  compared element by element, dictionaries as sets of items.  \<open>canon\<close> maps every value to
  a representative of its class: booleans become integers and items are sorted by key.
\<close>

primrec canon :: "pyval \<Rightarrow> pyval" where
  "canon PNone = PNone"
| "canon (PBool b) = PInt (if b then 1 else 0)"
| "canon (PInt n) = PInt n"
| "canon (PStr s) = PStr s"
| "canon (PList xs) = PList (map canon xs)"
| "canon (PDict d) = PDict (sort_key fst (map (map_prod id canon) d))"

definition py_eq :: "pyval \<Rightarrow> pyval \<Rightarrow> bool" where
  "py_eq a b = (canon a = canon b)"

text \<open>\<open>x.get(k, default)\<close> on an arbitrary value: only a dictionary has \<open>get\<close>.\<close>

definition py_get :: "pyval \<Rightarrow> string \<Rightarrow> pyval \<Rightarrow> exn + pyval" where
  "py_get x k dflt =
     (case x of
        PDict d \<Rightarrow> Inr (dict_get d k dflt)
      | _ \<Rightarrow> Inl (AttributeError ''object has no attribute get''))"

text \<open>
  \<open>for x in v\<close>: a list yields its elements, a dictionary its keys, a string its characters;
  the other values are not iterable.
\<close>

definition py_iter :: "pyval \<Rightarrow> exn + pyval list" where
  "py_iter v =
     (case v of
        PList xs \<Rightarrow> Inr xs
      | PDict d \<Rightarrow> Inr (map (\<lambda>kv. PStr (fst kv)) d)
      | PStr s \<Rightarrow> Inr (map (\<lambda>c. PStr [c]) s)
      | _ \<Rightarrow> Inl (TypeError ''object is not iterable''))"

section \<open>String operations\<close>

text \<open>
  \<open>str.isspace\<close>, \<open>str.lower\<close> and the upper-case partner of a character, on the code
  points below 256.  Characters are compared by their code points.  The upper-case letters
  are \<open>A\<close> to \<open>Z\<close> and the code points 192 to 222 except 215; the lower-case letter of each is
  32 above it, which is the same code point with bit 5 set.
\<close>

definition py_isspace :: "char \<Rightarrow> bool" where
  "py_isspace c =
     ((CHR 0x09 \<le> c \<and> c \<le> CHR 0x0D) \<or> (CHR 0x1C \<le> c \<and> c \<le> CHR 0x20) \<or>
      c = CHR 0x85 \<or> c = CHR 0xA0)"

definition is_upper :: "char \<Rightarrow> bool" where
  "is_upper c =
     ((CHR ''A'' \<le> c \<and> c \<le> CHR ''Z'') \<or> (CHR 0xC0 \<le> c \<and> c \<le> CHR 0xDE \<and> c \<noteq> CHR 0xD7))"

definition is_lower :: "char \<Rightarrow> bool" where
  "is_lower c =
     ((CHR ''a'' \<le> c \<and> c \<le> CHR ''z'') \<or> (CHR 0xE0 \<le> c \<and> c \<le> CHR 0xFE \<and> c \<noteq> CHR 0xF7))"

fun set_bit5 :: "bool \<Rightarrow> char \<Rightarrow> char" where
  "set_bit5 b (Char b0 b1 b2 b3 b4 b5 b6 b7) = Char b0 b1 b2 b3 b4 b b6 b7"

definition py_lower :: "char \<Rightarrow> char" where
  "py_lower c = (if is_upper c then set_bit5 True c else c)"

definition py_upper :: "char \<Rightarrow> char" where
  "py_upper c = (if is_lower c then set_bit5 False c else c)"

definition lower :: "string \<Rightarrow> string" where
  "lower s = map py_lower s"

text \<open>\<open>s.strip()\<close>, \<open>s.startswith(p)\<close> and \<open>sub in s\<close>.\<close>

definition strip :: "string \<Rightarrow> string" where
  "strip s = rev (dropWhile py_isspace (rev (dropWhile py_isspace s)))"

definition startswith :: "string \<Rightarrow> string \<Rightarrow> bool" where
  "startswith s p = (take (length p) s = p)"

fun str_in :: "string \<Rightarrow> string \<Rightarrow> bool" where
  "str_in sub [] = (sub = [])"
| "str_in sub (c # cs) = (startswith (c # cs) sub \<or> str_in sub cs)"

text \<open>\<open>content.split('\n')\<close> (never empty) and \<open>'\n'.join(lines)\<close>.\<close>

fun split_newline :: "string \<Rightarrow> string list" where
  "split_newline [] = [[]]"
| "split_newline (c # cs) =
     (if c = CHR 0x0A then [] # split_newline cs
      else (case split_newline cs of l # ls \<Rightarrow> (c # l) # ls | [] \<Rightarrow> [[c]]))"

fun join_newline :: "string list \<Rightarrow> string" where
  "join_newline [] = []"
| "join_newline [l] = l"
| "join_newline (l # ls) = l @ CHR 0x0A # join_newline ls"

text \<open>\<open>xs[a:b]\<close> for indices inside \<open>0..len(xs)\<close>.\<close>

definition slice :: "'a list \<Rightarrow> nat \<Rightarrow> nat \<Rightarrow> 'a list" where
  "slice xs a b = take (b - a) (drop a xs)"

text \<open>
  \<open>s.split('.')[0]\<close>, \<open>s.isdigit()\<close> and \<open>int(s)\<close>.  The superscript digits (code points
  178, 179 and 185) satisfy \<open>isdigit\<close> but are not decimal digits: \<open>int\<close> raises on them.
\<close>

definition first_component :: "string \<Rightarrow> string" where
  "first_component s = takeWhile (\<lambda>c. c \<noteq> CHR ''.'') s"

definition is_decimal :: "char \<Rightarrow> bool" where
  "is_decimal c = (CHR ''0'' \<le> c \<and> c \<le> CHR ''9'')"

definition isdigit :: "string \<Rightarrow> bool" where
  "isdigit s =
     (s \<noteq> [] \<and> (\<forall>c \<in> set s. is_decimal c \<or> c = CHR 0xB2 \<or> c = CHR 0xB3 \<or> c = CHR 0xB9))"

definition py_int :: "string \<Rightarrow> exn + int" where
  "py_int s =
     (if s \<noteq> [] \<and> (\<forall>c \<in> set s. is_decimal c)
      then Inr (fold (\<lambda>c n. 10 * n + (int (of_char c) - 48)) s 0)
      else Inl (ValueError ''invalid literal for int() with base 10''))"

text \<open>
  \<open>str(n)\<close> of an integer and \<open>repr(s)\<close> of a string: single quotes unless the string holds a
  single quote and no double quote; the quote, the backslash and the characters that are not
  printable are escaped.
\<close>

fun str_nat :: "nat \<Rightarrow> string" where
  "str_nat n = (if n < 10 then [char_of (48 + n)] else str_nat (n div 10) @ [char_of (48 + n mod 10)])"

definition str_int :: "int \<Rightarrow> string" where
  "str_int i = (if i < 0 then CHR ''-'' # str_nat (nat (- i)) else str_nat (nat i))"

definition hex_digit :: "nat \<Rightarrow> char" where
  "hex_digit n = (if n < 10 then char_of (48 + n) else char_of (87 + n))"

definition printable :: "char \<Rightarrow> bool" where
  "printable c =
     (let n = of_char c :: nat
      in (32 \<le> n \<and> n < 127) \<or> (161 \<le> n \<and> n \<noteq> 173))"

definition repr_char :: "char \<Rightarrow> char \<Rightarrow> string" where
  "repr_char q c =
     (if c = q \<or> c = CHR 0x5C then [CHR 0x5C, c]
      else if c = CHR 0x09 then [CHR 0x5C, CHR ''t'']
      else if c = CHR 0x0A then [CHR 0x5C, CHR ''n'']
      else if c = CHR 0x0D then [CHR 0x5C, CHR ''r'']
      else if printable c then [c]
      else [CHR 0x5C, CHR ''x'', hex_digit (of_char c div 16), hex_digit (of_char c mod 16)])"

definition repr_str :: "string \<Rightarrow> string" where
  "repr_str s =
     (let q = (if CHR 0x27 \<in> set s \<and> CHR 0x22 \<notin> set s then CHR 0x22 else CHR 0x27)
      in q # concat (map (repr_char q) s) @ [q])"

definition join_comma :: "string list \<Rightarrow> string" where
  "join_comma ss = (case ss of [] \<Rightarrow> [] | s # rest \<Rightarrow> s @ concat (map (\<lambda>t. '', '' @ t) rest))"

text \<open>\<open>repr(v)\<close> and \<open>str(v)\<close>, as an f-string formats a value.\<close>

primrec py_repr :: "pyval \<Rightarrow> string" where
  "py_repr PNone = ''None''"
| "py_repr (PBool b) = (if b then ''True'' else ''False'')"
| "py_repr (PInt n) = str_int n"
| "py_repr (PStr s) = repr_str s"
| "py_repr (PList xs) = ''['' @ join_comma (map py_repr xs) @ '']''"
| "py_repr (PDict d) =
     ''{'' @ join_comma (map (\<lambda>kv. repr_str (fst kv) @ '': '' @ snd kv) (map (map_prod id py_repr) d)) @ ''}''"

definition py_str :: "pyval \<Rightarrow> string" where
  "py_str v = (case v of PStr s \<Rightarrow> s | _ \<Rightarrow> py_repr v)"

text \<open>\<open>k in x\<close> for a string \<open>k\<close>.\<close>

definition py_contains :: "pyval \<Rightarrow> string \<Rightarrow> exn + bool" where
  "py_contains x k =
     (case x of
        PDict d \<Rightarrow> Inr (k \<in> fst ` set d)
      | PList xs \<Rightarrow> Inr (\<exists>v \<in> set xs. py_eq v (PStr k))
      | PStr s \<Rightarrow> Inr (str_in k s)
      | _ \<Rightarrow> Inl (TypeError ''argument is not iterable''))"

text \<open>\<open>d[k]\<close>: a missing key raises \<open>KeyError\<close>.\<close>

definition dict_item :: "pydict \<Rightarrow> string \<Rightarrow> exn + pyval" where
  "dict_item d k = (case map_of d k of None \<Rightarrow> Inl (KeyError (repr_str k)) | Some v \<Rightarrow> Inr v)"

section \<open>Regular expressions\<close>

text \<open>
  The scanners match lines with the \<open>re\<close> module.  The fragment of its syntax that the
  pattern tables use is a datatype: a single-character matcher (a literal, \<open>.\<close>, \<open>.\<close> under
  \<open>DOTALL\<close>, a bracket class or its negation), the greedy repetition \<open>{lo,hi}\<close> of a
  single-character matcher, sequence, alternation, the capturing group and the negative
  lookahead \<open>(?!...)\<close>.  The tables use at most one capturing group.
\<close>

datatype citem = CChar char | CRange char char | CSpace

datatype cset = Lit char | Dot | AnyChar | Set "citem list" | NotSet "citem list"

datatype regex =
    Eps
  | One cset
  | Rep cset nat "nat option"
  | Seq regex regex
  | Alt regex regex
  | Grp regex
  | NotAhead regex

text \<open>
  A character against a single-character matcher; \<open>ic\<close> is the flag \<open>re.IGNORECASE\<close>, under
  which the character is lowered and a class holds it when it holds a case variant of it.
\<close>

fun item_match :: "citem \<Rightarrow> char \<Rightarrow> bool" where
  "item_match (CChar c) x = (x = c)"
| "item_match (CRange lo hi) x = (lo \<le> x \<and> x \<le> hi)"
| "item_match CSpace x = py_isspace x"

definition in_items :: "bool \<Rightarrow> citem list \<Rightarrow> char \<Rightarrow> bool" where
  "in_items ic items x =
     (if ic then (\<exists>i \<in> set items. item_match i (py_lower x) \<or> item_match i (py_upper (py_lower x)))
      else (\<exists>i \<in> set items. item_match i x))"

fun cmatch :: "bool \<Rightarrow> cset \<Rightarrow> char \<Rightarrow> bool" where
  "cmatch ic (Lit c) x = (if ic then py_lower x = py_lower c else x = c)"
| "cmatch ic Dot x = (x \<noteq> CHR 0x0A)"
| "cmatch ic AnyChar x = True"
| "cmatch ic (Set items) x = in_items ic items x"
| "cmatch ic (NotSet items) x = (\<not> in_items ic items x)"

text \<open>
  The backtracking matcher.  A state is the input still to read and the text of group 1 if the
  group has matched.  \<open>rx_match\<close> returns the states after every way of matching the
  expression at the head of the input, in the order in which backtracking tries them: a greedy
  repetition tries the longest run first, an alternation its left branch first.  The match
  \<open>re\<close> reports is the first one.
\<close>

type_synonym mstate = "string \<times> string option"

primrec rx_match :: "bool \<Rightarrow> regex \<Rightarrow> mstate \<Rightarrow> mstate list" where
  "rx_match ic Eps st = [st]"
| "rx_match ic (One c) st =
     (case fst st of [] \<Rightarrow> [] | x # xs \<Rightarrow> if cmatch ic c x then [(xs, snd st)] else [])"
| "rx_match ic (Rep c lo hi) st =
     (let run = length (takeWhile (cmatch ic c) (fst st));
          k = (case hi of None \<Rightarrow> run | Some h \<Rightarrow> min run h)
      in if k < lo then [] else map (\<lambda>n. (drop n (fst st), snd st)) (rev [lo ..< Suc k]))"
| "rx_match ic (Seq a b) st = concat (map (rx_match ic b) (rx_match ic a st))"
| "rx_match ic (Alt a b) st = rx_match ic a st @ rx_match ic b st"
| "rx_match ic (Grp a) st =
     map (\<lambda>st'. (fst st', Some (take (length (fst st) - length (fst st')) (fst st))))
       (rx_match ic a st)"
| "rx_match ic (NotAhead a) st = (if rx_match ic a st = [] then [st] else [])"

text \<open>
  A match object: \<open>group(0)\<close>, and \<open>group(1)\<close>, which is \<open>None\<close> when the group took no part.
  \<open>match_here\<close> gives the length and the group of the match at the head of the input;
  \<open>re_search\<close> is \<open>re.search\<close>, the leftmost match; \<open>re_finditer\<close> is \<open>re.finditer\<close>, the
  leftmost matches that do not overlap (\<open>skip\<close> counts the characters still inside the last
  match).  No pattern of the tables matches the empty string, where \<open>re.finditer\<close> has a rule
  of its own.
\<close>

record rmatch =
  group0 :: string
  group1 :: "string option"

definition match_here :: "bool \<Rightarrow> regex \<Rightarrow> string \<Rightarrow> (nat \<times> string option) option" where
  "match_here ic r s =
     (case rx_match ic r (s, None) of
        [] \<Rightarrow> None
      | st # _ \<Rightarrow> Some (length s - length (fst st), snd st))"

fun re_search :: "bool \<Rightarrow> regex \<Rightarrow> string \<Rightarrow> rmatch option" where
  "re_search ic r [] =
     (case match_here ic r [] of
        None \<Rightarrow> None
      | Some (n, g) \<Rightarrow> Some \<lparr>group0 = [], group1 = g\<rparr>)"
| "re_search ic r (c # cs) =
     (case match_here ic r (c # cs) of
        None \<Rightarrow> re_search ic r cs
      | Some (n, g) \<Rightarrow> Some \<lparr>group0 = take n (c # cs), group1 = g\<rparr>)"

fun finditer_from :: "bool \<Rightarrow> regex \<Rightarrow> nat \<Rightarrow> string \<Rightarrow> rmatch list" where
  "finditer_from ic r skip [] =
     (if skip = 0 then
        (case match_here ic r [] of
           None \<Rightarrow> []
         | Some (n, g) \<Rightarrow> [\<lparr>group0 = [], group1 = g\<rparr>])
      else [])"
| "finditer_from ic r skip (c # cs) =
     (if 0 < skip then finditer_from ic r (skip - 1) cs
      else (case match_here ic r (c # cs) of
              None \<Rightarrow> finditer_from ic r 0 cs
            | Some (n, g) \<Rightarrow>
                \<lparr>group0 = take n (c # cs), group1 = g\<rparr> # finditer_from ic r (n - 1) cs))"

definition re_finditer :: "bool \<Rightarrow> regex \<Rightarrow> string \<Rightarrow> rmatch list" where
  "re_finditer ic r s = finditer_from ic r 0 s"

text \<open>Notation for the tables: a literal string, a sequence, \<open>r?\<close>, and the number of groups.\<close>

fun lit :: "string \<Rightarrow> regex" where
  "lit [] = Eps"
| "lit [c] = One (Lit c)"
| "lit (c # cs) = Seq (One (Lit c)) (lit cs)"

fun cat :: "regex list \<Rightarrow> regex" where
  "cat [] = Eps"
| "cat [r] = r"
| "cat (r # rs) = Seq r (cat rs)"

definition opt :: "regex \<Rightarrow> regex" where
  "opt r = Alt r Eps"

fun alts :: "regex list \<Rightarrow> regex" where
  "alts [] = Eps"
| "alts [r] = r"
| "alts (r # rs) = Alt r (alts rs)"

primrec ngroups :: "regex \<Rightarrow> nat" where
  "ngroups Eps = 0"
| "ngroups (One c) = 0"
| "ngroups (Rep c lo hi) = 0"
| "ngroups (Seq a b) = ngroups a + ngroups b"
| "ngroups (Alt a b) = ngroups a + ngroups b"
| "ngroups (Grp a) = Suc (ngroups a)"
| "ngroups (NotAhead a) = ngroups a"

section \<open>The environment of a scan\<close>

text \<open>
  The scripts read the project tree, parse configuration files with library parsers, run the
  package manager and write a report.  The environment makes these explicit: what a glob
  under the project root lists, whether a path exists, what reading a file returns or raises
  (\<open>fs_read_ignore\<close> is \<open>open(p, 'r', encoding='utf-8', errors='ignore').read()\<close>, \<open>fs_read\<close> is
  \<open>open(p, 'r').read()\<close>), what \<open>ET.parse\<close>, \<open>yaml.safe_load\<close> and \<open>json.loads\<close> return or raise,
  how \<open>flutter pub outdated --json\<close> ends, and whether the report can be written.
\<close>

datatype xml = Element string "(string \<times> string) list" "xml list"

datatype proc =
    Completed int string string
  | TimeoutExpired
  | FileNotFoundError
  | ProcError exn

record filesys =
  fs_glob :: "string \<Rightarrow> string \<Rightarrow> string list"
  fs_exists :: "string \<Rightarrow> bool"
  fs_read_ignore :: "string \<Rightarrow> exn + string"
  fs_read :: "string \<Rightarrow> exn + string"
  fs_parse_xml :: "string \<Rightarrow> exn + xml"
  fs_load_yaml :: "string \<Rightarrow> exn + pyval"
  fs_json_loads :: "string \<Rightarrow> exn + pyval"
  fs_pub_outdated :: "string \<Rightarrow> proc"
  fs_write :: "string \<Rightarrow> exn option"
  fs_cwd :: string

text \<open>
  \<open>str(Path(root) / p1 / ... / pn)\<close> on a POSIX system, for names \<open>p1\<close> to \<open>pn\<close> that hold no
  slash.  \<open>Path\<close> splits the root at the slashes and drops the empty components and the
  components \<open>.\<close>; it keeps a leading slash, and a leading pair of slashes when no third one
  follows.  The components are joined with single slashes, and the path without any
  component is \<open>.\<close>.
\<close>

fun split_slash :: "string \<Rightarrow> string list" where
  "split_slash [] = [[]]"
| "split_slash (c # cs) =
     (if c = CHR ''/'' then [] # split_slash cs
      else (case split_slash cs of l # ls \<Rightarrow> (c # l) # ls | [] \<Rightarrow> [[c]]))"

fun join_slash :: "string list \<Rightarrow> string" where
  "join_slash [] = []"
| "join_slash [l] = l"
| "join_slash (l # ls) = l @ CHR ''/'' # join_slash ls"

definition path_anchor :: "string \<Rightarrow> string" where
  "path_anchor root =
     (if take 2 root = ''//'' \<and> take 3 root \<noteq> ''///'' then ''//''
      else if take 1 root = ''/'' then ''/''
      else [])"

definition path_components :: "string \<Rightarrow> string list" where
  "path_components root = filter (\<lambda>c. c \<noteq> [] \<and> c \<noteq> ''.'') (split_slash root)"

definition joinpath :: "string \<Rightarrow> string list \<Rightarrow> string" where
  "joinpath root parts =
     (let components = path_components root @ parts
      in if path_anchor root = [] \<and> components = [] then ''.''
         else path_anchor root @ join_slash components)"

text \<open>
  What the body of a scanning function does, in program order: \<open>Tried n label\<close> when the rule
  \<open>label\<close> of a pattern table is evaluated against line \<open>n\<close>, \<open>Emit f\<close> when the finding \<open>f\<close> is
  appended, \<open>Raise e\<close> when an exception leaves the body.  \<open>collect\<close> gives the findings
  appended before the first exception, and that exception.
\<close>

datatype event = Tried nat string | Emit pydict | Raise exn

fun collect :: "event list \<Rightarrow> pydict list \<times> exn option" where
  "collect [] = ([], None)"
| "collect (Tried n l # evs) = collect evs"
| "collect (Emit f # evs) = (case collect evs of (fs, e) \<Rightarrow> (f # fs, e))"
| "collect (Raise e # evs) = ([], Some e)"

text \<open>
  The skeleton shared by the per-file functions:
  \<^verbatim>\<open>
    findings = []
    try:
        with open(file_path, 'r', encoding='utf-8', errors='ignore') as f:
            content = f.read()
            ...
    except Exception as e:
        print(f"Error scanning {file_path}: {e}")
    return findings
  \<close>
  The result is the findings and the lines printed; of the console output only these error
  lines are kept.
\<close>

definition error_line :: "string \<Rightarrow> exn \<Rightarrow> string" where
  "error_line file_path e = ''Error scanning '' @ file_path @ '': '' @ str_exn e"

definition try_scan :: "string \<Rightarrow> exn + string \<Rightarrow> (string \<Rightarrow> event list) \<Rightarrow> pydict list \<times> string list" where
  "try_scan file_path rd body =
     (case rd of
        Inl e \<Rightarrow> ([], [error_line file_path e])
      | Inr content \<Rightarrow>
          (case collect (body content) of
             (findings, None) \<Rightarrow> (findings, [])
           | (findings, Some e) \<Rightarrow> (findings, [error_line file_path e])))"

text \<open>The result dictionary of a \<open>scan_project\<close>, whose three keys are fixed.\<close>

record scan_result =
  total_files_scanned :: nat
  total_findings :: nat
  findings :: "pydict list"

text \<open>
  How a script ends: \<open>sys.exit(n)\<close>, or an exception nothing catches, on which the
  interpreter prints the traceback and exits with status 1.
\<close>

datatype outcome = Exit nat | Uncaught exn

fun exit_status :: "outcome \<Rightarrow> nat" where
  "exit_status (Exit n) = n"
| "exit_status (Uncaught e) = 1"

section \<open>scan_hardcoded_secrets.py\<close>

subsection \<open>The pattern tables\<close>

definition sep :: regex where
  "sep = Rep (Set [CChar CHR ''_'', CChar CHR ''-'']) 0 (Some 1)"

definition spaces :: regex where
  "spaces = Rep (Set [CSpace]) 0 None"

definition assign :: regex where
  "assign = cat [spaces, One (Set [CChar CHR '':'', CChar CHR ''='']), spaces]"

definition quote :: regex where
  "quote = One (Set [CChar CHR 0x22, CChar CHR 0x27])"

definition not_quote :: cset where
  "not_quote = NotSet [CChar CHR 0x22, CChar CHR 0x27]"

definition word_dash :: "citem list" where
  "word_dash = [CRange CHR ''a'' CHR ''z'', CRange CHR ''A'' CHR ''Z'', CRange CHR ''0'' CHR ''9'',
                CChar CHR ''_'', CChar CHR ''-'']"

definition alnum :: "citem list" where
  "alnum = [CRange CHR ''a'' CHR ''z'', CRange CHR ''A'' CHR ''Z'', CRange CHR ''0'' CHR ''9'']"

text \<open>\<open>name\s*[:=]\s*["\'](body)["\']\<close>, the shape of most rules.\<close>

definition quoted_value :: "regex list \<Rightarrow> regex \<Rightarrow> regex" where
  "quoted_value name body = cat (name @ [assign, quote, Grp body, quote])"

definition SECRET_PATTERNS :: "(regex \<times> string) list" where
  "SECRET_PATTERNS =
    [(quoted_value [lit ''api'', sep, lit ''key''] (Rep (Set word_dash) 20 None), ''API Key''),
     (quoted_value [lit ''apikey''] (Rep (Set word_dash) 20 None), ''API Key''),
     (quoted_value [lit ''api'', sep, lit ''secret''] (Rep (Set word_dash) 20 None), ''API Secret''),
     (quoted_value [lit ''access'', sep, lit ''token''] (Rep (Set word_dash) 20 None), ''Access Token''),
     (quoted_value [lit ''auth'', sep, lit ''token''] (Rep (Set word_dash) 20 None), ''Auth Token''),
     (cat [lit ''bearer'', Rep (Set [CSpace]) 1 None, quote,
           Grp (Rep (Set (word_dash @ [CChar CHR ''.''])) 20 None), quote], ''Bearer Token''),
     (quoted_value [lit ''aws'', sep, lit ''access'', sep, lit ''key'', sep, lit ''id'']
        (Rep (Set [CRange CHR ''A'' CHR ''Z'', CRange CHR ''0'' CHR ''9'']) 20 (Some 20)),
      ''AWS Access Key''),
     (quoted_value [lit ''aws'', sep, lit ''secret'', sep, lit ''access'', sep, lit ''key'']
        (Rep (Set (alnum @ [CChar CHR ''/'', CChar CHR ''+'', CChar CHR ''=''])) 40 (Some 40)),
      ''AWS Secret Key''),
     (quoted_value [lit ''firebase'', sep, lit ''api'', sep, lit ''key'']
        (Rep (Set word_dash) 30 None), ''Firebase API Key''),
     (quoted_value [lit ''db'', sep, lit ''password''] (Rep not_quote 1 None), ''Database Password''),
     (cat [lit ''database'', sep, lit ''url'', assign, quote, Rep not_quote 0 None,
           One (Lit CHR '':''), Rep not_quote 0 None, One (Lit CHR ''@''), Rep not_quote 1 None,
           quote], ''Database URL with credentials''),
     (quoted_value [lit ''password''] (Rep not_quote 8 None), ''Password''),
     (quoted_value [lit ''passwd''] (Rep not_quote 8 None), ''Password''),
     (quoted_value [lit ''pwd''] (Rep not_quote 8 None), ''Password''),
     (quoted_value [lit ''private'', sep, lit ''key''] (Rep not_quote 1 None), ''Private Key''),
     (cat [lit ''-----BEGIN '', opt (Alt (lit ''RSA '') (lit ''DSA '')), lit ''PRIVATE KEY-----''],
      ''Private Key Block''),
     (quoted_value [lit ''client'', sep, lit ''secret''] (Rep (Set word_dash) 20 None), ''Client Secret''),
     (quoted_value [lit ''client'', sep, lit ''id''] (Rep (Set word_dash) 20 None), ''Client ID''),
     (quoted_value [lit ''secret'', sep, lit ''key''] (Rep (Set word_dash) 16 None), ''Secret Key''),
     (quoted_value [lit ''encryption'', sep, lit ''key'']
        (Rep (Set (word_dash @ [CChar CHR ''/'', CChar CHR ''+'', CChar CHR ''=''])) 16 None),
      ''Encryption Key'')]"

definition one_sep :: regex where
  "one_sep = One (Set [CChar CHR ''_'', CChar CHR ''-''])"

definition FALSE_POSITIVE_PATTERNS :: "regex list" where
  "FALSE_POSITIVE_PATTERNS =
    [lit ''example.com'',
     cat [lit ''your'', one_sep, lit ''api'', one_sep, lit ''key''],
     cat [lit ''YOUR'', one_sep, lit ''API'', one_sep, lit ''KEY''],
     cat [One (Lit CHR ''<''), Rep Dot 0 None, One (Lit CHR ''>'')],
     cat [lit ''${'', Rep Dot 0 None, One (Lit CHR ''}'')],
     lit ''FIXME'',
     lit ''TODO'',
     lit ''dummy'',
     lit ''test'',
     lit ''sample'',
     lit ''placeholder'']"

subsection \<open>is_false_positive\<close>

definition is_false_positive :: "string \<Rightarrow> bool" where
  "is_false_positive val =
     (let value_lower = lower val
      in \<exists>pattern \<in> set FALSE_POSITIVE_PATTERNS. re_search True pattern value_lower \<noteq> None)"

subsection \<open>scan_file\<close>

text \<open>
  \<open>value = match.group(1) if len(match.groups()) > 0 else match.group(0)\<close>; a group that took
  no part gives \<open>None\<close>, on which \<open>is_false_positive\<close> raises.
\<close>

definition match_value :: "regex \<Rightarrow> rmatch \<Rightarrow> string option" where
  "match_value pattern mt = (if 0 < ngroups pattern then group1 mt else Some (group0 mt))"

definition secret_match_events :: "string \<Rightarrow> nat \<Rightarrow> string \<Rightarrow> regex \<Rightarrow> string \<Rightarrow> rmatch \<Rightarrow> event list" where
  "secret_match_events file_path line_num line pattern secret_type mt =
     (case match_value pattern mt of
        None \<Rightarrow> [Raise (AttributeError ''object has no attribute lower'')]
      | Some val \<Rightarrow>
          if is_false_positive val then []
          else [Emit [(''file'', PStr file_path),
                      (''line'', PInt (int line_num)),
                      (''type'', PStr secret_type),
                      (''pattern'', PStr (strip line)),
                      (''severity'', PStr ''HIGH'')]])"

definition secret_rule_events :: "string \<Rightarrow> nat \<Rightarrow> string \<Rightarrow> regex \<times> string \<Rightarrow> event list" where
  "secret_rule_events file_path line_num line rule =
     Tried line_num (snd rule) #
     concat (map (secret_match_events file_path line_num line (fst rule) (snd rule))
               (re_finditer True (fst rule) line))"

definition secret_line_events :: "string \<Rightarrow> nat \<times> string \<Rightarrow> event list" where
  "secret_line_events file_path nl =
     (if startswith (strip (snd nl)) ''//'' \<or> startswith (strip (snd nl)) ''/*'' then []
      else concat (map (secret_rule_events file_path (fst nl) (snd nl)) SECRET_PATTERNS))"

definition scan_file_events :: "string \<Rightarrow> string \<Rightarrow> event list" where
  "scan_file_events file_path content =
     concat (map (secret_line_events file_path) (enumerate 1 (split_newline content)))"

definition scan_file :: "filesys \<Rightarrow> string \<Rightarrow> pydict list \<times> string list" where
  "scan_file fs file_path =
     try_scan file_path (fs_read_ignore fs file_path) (scan_file_events file_path)"

subsection \<open>scan_project\<close>

definition secrets_files_to_scan :: "filesys \<Rightarrow> string \<Rightarrow> string list" where
  "secrets_files_to_scan fs project_root =
     fs_glob fs project_root ''lib/**/*.dart'' @
     fs_glob fs project_root ''android/**/*.gradle'' @
     fs_glob fs project_root ''ios/**/*.plist''"

definition secrets_scan_project :: "filesys \<Rightarrow> string \<Rightarrow> scan_result \<times> string list" where
  "secrets_scan_project fs project_root =
     (let files_to_scan = secrets_files_to_scan fs project_root;
          scans = map (scan_file fs) files_to_scan;
          all_findings = concat (map fst scans)
      in (\<lparr>total_files_scanned = length files_to_scan,
           total_findings = length all_findings,
           findings = all_findings\<rparr>,
          concat (map snd scans)))"

section \<open>analyze_storage_security.py\<close>

subsection \<open>scan_shared_preferences_usage\<close>

definition sensitive_patterns :: "(regex \<times> string) list" where
  "sensitive_patterns =
    [(cat [lit ''setString('', quote,
           alts [lit ''token'', lit ''auth'', lit ''password'', lit ''secret'', lit ''key'',
                 lit ''credential''],
           quote], ''Token/Credential storage''),
     (cat [lit ''setString('', quote, Rep Dot 0 None, alts [lit ''api'', lit ''jwt'', lit ''bearer''],
           Rep Dot 0 None, quote], ''API key storage''),
     (cat [lit ''setInt('', quote, alts [lit ''pin'', lit ''otp'', lit ''code''], quote],
      ''PIN/OTP storage'')]"

definition prefs_rule_events :: "string \<Rightarrow> nat \<Rightarrow> string \<Rightarrow> regex \<times> string \<Rightarrow> event list" where
  "prefs_rule_events file_path line_num line rule =
     Tried line_num (snd rule) #
     (if re_search True (fst rule) line \<noteq> None then
        [Emit [(''file'', PStr file_path),
               (''line'', PInt (int line_num)),
               (''issue'', PStr (snd rule @ '' in unencrypted SharedPreferences'')),
               (''code'', PStr (strip line)),
               (''severity'', PStr ''HIGH''),
               (''recommendation'', PStr ''Use flutter_secure_storage instead'')]]
      else [])"

definition prefs_line_events :: "string \<Rightarrow> nat \<times> string \<Rightarrow> event list" where
  "prefs_line_events file_path nl =
     concat (map (prefs_rule_events file_path (fst nl) (snd nl)) sensitive_patterns)"

definition shared_preferences_events :: "string \<Rightarrow> string \<Rightarrow> event list" where
  "shared_preferences_events file_path content =
     (let lines = split_newline content;
          has_shared_prefs = str_in ''package:shared_preferences'' content
      in if has_shared_prefs then concat (map (prefs_line_events file_path) (enumerate 1 lines))
         else [])"

definition scan_shared_preferences_usage :: "filesys \<Rightarrow> string \<Rightarrow> pydict list \<times> string list" where
  "scan_shared_preferences_usage fs file_path =
     try_scan file_path (fs_read_ignore fs file_path) (shared_preferences_events file_path)"

subsection \<open>scan_file_storage\<close>

definition insecure_patterns :: "(regex \<times> string) list" where
  "insecure_patterns =
    [(cat [lit ''File('', Rep Dot 0 None, lit '').writeAsString('',
           NotAhead (Seq (Rep Dot 0 None) (lit ''encrypt''))], ''Unencrypted file write''),
     (cat [lit ''File('', Rep Dot 0 None, lit '').writeAsBytes('',
           NotAhead (Seq (Rep Dot 0 None) (lit ''encrypt''))], ''Unencrypted file write''),
     (lit ''openWrite('', ''Potentially unencrypted stream write'')]"

definition storage_rule_events :: "string \<Rightarrow> string list \<Rightarrow> nat \<Rightarrow> string \<Rightarrow> regex \<times> string \<Rightarrow> event list" where
  "storage_rule_events file_path lines line_num line rule =
     Tried line_num (snd rule) #
     (if re_search False (fst rule) line \<noteq> None then
        (let context_start = line_num - 3;
             context_end = min (length lines) (line_num + 3);
             context = join_newline (slice lines context_start context_end)
         in if \<not> str_in ''encrypt'' (lower context) then
              [Emit [(''file'', PStr file_path),
                     (''line'', PInt (int line_num)),
                     (''issue'', PStr (snd rule)),
                     (''code'', PStr (strip line)),
                     (''severity'', PStr ''MEDIUM''),
                     (''recommendation'', PStr ''Encrypt sensitive data before writing to files'')]]
            else [])
      else [])"

definition storage_line_events :: "string \<Rightarrow> string list \<Rightarrow> nat \<times> string \<Rightarrow> event list" where
  "storage_line_events file_path lines nl =
     concat (map (storage_rule_events file_path lines (fst nl) (snd nl)) insecure_patterns)"

definition file_storage_events :: "string \<Rightarrow> string \<Rightarrow> event list" where
  "file_storage_events file_path content =
     (let lines = split_newline content
      in concat (map (storage_line_events file_path lines) (enumerate 1 lines)))"

definition scan_file_storage :: "filesys \<Rightarrow> string \<Rightarrow> pydict list \<times> string list" where
  "scan_file_storage fs file_path =
     try_scan file_path (fs_read_ignore fs file_path) (file_storage_events file_path)"

subsection \<open>scan_database_security\<close>

definition raw_query :: regex where
  "raw_query = cat [lit ''rawQuery('', quote, lit ''SELECT'', Rep Dot 0 None, One (Lit CHR ''$'')]"

definition sqflite_finding :: "string \<Rightarrow> pydict" where
  "sqflite_finding file_path =
     [(''file'', PStr file_path),
      (''line'', PInt 1),
      (''issue'', PStr ''Unencrypted SQLite database''),
      (''code'', PStr ''import package:sqflite''),
      (''severity'', PStr ''HIGH''),
      (''recommendation'', PStr ''Consider using sqflite_sqlcipher for encrypted databases'')]"

definition database_line_events :: "string \<Rightarrow> nat \<times> string \<Rightarrow> event list" where
  "database_line_events file_path nl =
     Tried (fst nl) ''Potential SQL injection via string interpolation'' #
     (if re_search False raw_query (snd nl) \<noteq> None then
        [Emit [(''file'', PStr file_path),
               (''line'', PInt (int (fst nl))),
               (''issue'', PStr ''Potential SQL injection via string interpolation''),
               (''code'', PStr (strip (snd nl))),
               (''severity'', PStr ''HIGH''),
               (''recommendation'', PStr ''Use parameterized queries with whereArgs'')]]
      else [])"

definition database_events :: "string \<Rightarrow> string \<Rightarrow> event list" where
  "database_events file_path content =
     (let lines = split_newline content;
          has_sqflite = str_in ''package:sqflite'' content;
          has_encrypted_sqflite = str_in ''sqflite_sqlcipher'' content
      in (if has_sqflite \<and> \<not> has_encrypted_sqflite then [Emit (sqflite_finding file_path)] else []) @
         concat (map (database_line_events file_path) (enumerate 1 lines)))"

definition scan_database_security :: "filesys \<Rightarrow> string \<Rightarrow> pydict list \<times> string list" where
  "scan_database_security fs file_path =
     try_scan file_path (fs_read_ignore fs file_path) (database_events file_path)"

subsection \<open>scan_backup_configuration\<close>

definition backup_not_configured :: "string \<Rightarrow> pydict" where
  "backup_not_configured manifest =
     [(''file'', PStr manifest),
      (''line'', PInt 0),
      (''issue'', PStr ''Backup not explicitly configured''),
      (''code'', PStr ''<application>''),
      (''severity'', PStr ''MEDIUM''),
      (''recommendation'',
       PStr ''Set android:allowBackup=\"false\" or configure android:fullBackupContent'')]"

definition backup_enabled :: "string \<Rightarrow> pydict" where
  "backup_enabled manifest =
     [(''file'', PStr manifest),
      (''line'', PInt 0),
      (''issue'', PStr ''Full backup enabled - sensitive data may be backed up''),
      (''code'', PStr ''android:allowBackup=\"true\"''),
      (''severity'', PStr ''HIGH''),
      (''recommendation'', PStr ''Disable backup or use selective backup rules'')]"

definition backup_events :: "string \<Rightarrow> string \<Rightarrow> event list" where
  "backup_events manifest content =
     (if \<not> str_in ''android:allowBackup=\"false\"'' content \<and>
         \<not> str_in ''android:fullBackupContent'' content
      then [Emit (backup_not_configured manifest)] else []) @
     (if str_in ''android:allowBackup=\"true\"'' content
      then [Emit (backup_enabled manifest)] else [])"

definition android_manifest :: "string \<Rightarrow> string" where
  "android_manifest project_root =
     joinpath project_root [''android'', ''app'', ''src'', ''main'', ''AndroidManifest.xml'']"

definition scan_backup_configuration :: "filesys \<Rightarrow> string \<Rightarrow> pydict list \<times> string list" where
  "scan_backup_configuration fs project_root =
     (if fs_exists fs (android_manifest project_root)
      then try_scan (android_manifest project_root) (fs_read fs (android_manifest project_root))
             (backup_events (android_manifest project_root))
      else ([], []))"

subsection \<open>scan_project\<close>

definition storage_scan_file :: "filesys \<Rightarrow> string \<Rightarrow> pydict list \<times> string list" where
  "storage_scan_file fs file_path =
     (let a = scan_shared_preferences_usage fs file_path;
          b = scan_file_storage fs file_path;
          c = scan_database_security fs file_path
      in (fst a @ fst b @ fst c, snd a @ snd b @ snd c))"

definition storage_scan_project :: "filesys \<Rightarrow> string \<Rightarrow> scan_result \<times> string list" where
  "storage_scan_project fs project_root =
     (let dart_files = fs_glob fs project_root ''lib/**/*.dart'';
          scans = map (storage_scan_file fs) dart_files;
          backup = scan_backup_configuration fs project_root;
          all_findings = concat (map fst scans) @ fst backup
      in (\<lparr>total_files_scanned = length dart_files,
           total_findings = length all_findings,
           findings = all_findings\<rparr>,
          concat (map snd scans) @ snd backup))"

section \<open>check_network_security.py\<close>

subsection \<open>scan_http_usage\<close>

definition http_patterns :: "(regex \<times> string) list" where
  "http_patterns =
    [(cat [lit ''http://'', NotAhead (alts [lit ''localhost'', lit ''127.0.0.1'', lit ''0.0.0.0''])],
      ''HTTP URL (non-localhost)''),
     (cat [quote, lit ''http:'', quote], ''HTTP scheme''),
     (lit ''ws://'', ''Insecure WebSocket'')]"

definition http_finding :: "string \<Rightarrow> nat \<Rightarrow> string \<Rightarrow> string \<Rightarrow> pydict" where
  "http_finding file_path line_num line issue_type =
     [(''file'', PStr file_path),
      (''line'', PInt (int line_num)),
      (''issue'', PStr issue_type),
      (''code'', PStr (strip line)),
      (''severity'', PStr ''HIGH''),
      (''recommendation'', PStr ''Use HTTPS/WSS instead of HTTP/WS'')]"

definition http_rule_events :: "string \<Rightarrow> nat \<Rightarrow> string \<Rightarrow> regex \<times> string \<Rightarrow> event list" where
  "http_rule_events file_path line_num line rule =
     Tried line_num (snd rule) #
     map (\<lambda>mt. Emit (http_finding file_path line_num line (snd rule)))
       (re_finditer True (fst rule) line)"

definition http_line_events :: "string \<Rightarrow> nat \<times> string \<Rightarrow> event list" where
  "http_line_events file_path nl =
     (if startswith (strip (snd nl)) ''//'' then []
      else concat (map (http_rule_events file_path (fst nl) (snd nl)) http_patterns))"

definition http_usage_events :: "string \<Rightarrow> string \<Rightarrow> event list" where
  "http_usage_events file_path content =
     concat (map (http_line_events file_path) (enumerate 1 (split_newline content)))"

definition scan_http_usage :: "filesys \<Rightarrow> string \<Rightarrow> pydict list \<times> string list" where
  "scan_http_usage fs file_path =
     try_scan file_path (fs_read_ignore fs file_path) (http_usage_events file_path)"

subsection \<open>check_certificate_pinning\<close>

definition accepts_all_certificates :: regex where
  "accepts_all_certificates =
     cat [lit ''badCertificateCallback'', Rep Dot 0 None, One (Lit CHR ''=''), Rep Dot 0 None,
          One (Lit CHR ''(''), Rep Dot 0 None, One (Lit CHR '')''), Rep Dot 0 None, lit ''=>'',
          Rep Dot 0 None, lit ''true'']"

definition validation_disabled :: "string \<Rightarrow> pydict" where
  "validation_disabled file_path =
     [(''file'', PStr file_path),
      (''line'', PInt 0),
      (''issue'', PStr ''Certificate validation disabled (accepts all certificates)''),
      (''code'', PStr ''badCertificateCallback = (...) => true''),
      (''severity'', PStr ''CRITICAL''),
      (''recommendation'',
       PStr ''Remove this in production or implement proper certificate pinning'')]"

definition no_pinning_detected :: "string \<Rightarrow> pydict" where
  "no_pinning_detected file_path =
     [(''file'', PStr file_path),
      (''line'', PInt 0),
      (''issue'', PStr ''No certificate pinning detected''),
      (''code'', PStr ''HttpClient usage without pinning''),
      (''severity'', PStr ''MEDIUM''),
      (''recommendation'',
       PStr ''Consider implementing certificate pinning for sensitive APIs'')]"

definition certificate_pinning_events :: "string \<Rightarrow> string \<Rightarrow> event list" where
  "certificate_pinning_events file_path content =
     (let has_http_client = str_in ''HttpClient'' content;
          has_bad_cert_callback = str_in ''badCertificateCallback'' content;
          has_cert_pinning =
            (\<exists>pkg \<in> set [''http_certificate_pinning'', ''cert_pinning'', ''ssl_pinning_plugin''].
               str_in pkg content)
      in (if has_bad_cert_callback \<and> re_search False accepts_all_certificates content \<noteq> None
          then [Emit (validation_disabled file_path)] else []) @
         (if has_http_client \<and> \<not> has_cert_pinning \<and> \<not> has_bad_cert_callback
          then [Emit (no_pinning_detected file_path)] else []))"

definition check_certificate_pinning :: "filesys \<Rightarrow> string \<Rightarrow> pydict list \<times> string list" where
  "check_certificate_pinning fs file_path =
     try_scan file_path (fs_read_ignore fs file_path) (certificate_pinning_events file_path)"

subsection \<open>check_android_network_security\<close>

text \<open>
  \<open>root.find('.//tag')\<close> and \<open>root.findall('.//tag')\<close>: the elements below the root, in document
  order, that carry the tag.
\<close>

fun descendants :: "xml \<Rightarrow> xml list" where
  "descendants (Element t a cs) = concat (map (\<lambda>c. c # descendants c) cs)"

fun tag :: "xml \<Rightarrow> string" where
  "tag (Element t a cs) = t"

fun attrib :: "xml \<Rightarrow> (string \<times> string) list" where
  "attrib (Element t a cs) = a"

definition findall :: "xml \<Rightarrow> string \<Rightarrow> xml list" where
  "findall root t = filter (\<lambda>e. tag e = t) (descendants root)"

definition find_first :: "xml \<Rightarrow> string \<Rightarrow> xml option" where
  "find_first root t = (case findall root t of [] \<Rightarrow> None | e # _ \<Rightarrow> Some e)"

definition config_not_found :: pydict where
  "config_not_found =
     [(''file'', PStr ''android/app/src/main/res/xml/network_security_config.xml''),
      (''line'', PInt 0),
      (''issue'', PStr ''Network security configuration not found''),
      (''code'', PStr ''Missing file''),
      (''severity'', PStr ''MEDIUM''),
      (''recommendation'',
       PStr ''Create network_security_config.xml to enforce HTTPS and certificate pinning'')]"

definition cleartext_permitted :: "string \<Rightarrow> pydict" where
  "cleartext_permitted config =
     [(''file'', PStr config),
      (''line'', PInt 0),
      (''issue'', PStr ''Cleartext traffic permitted globally''),
      (''code'', PStr ''cleartextTrafficPermitted=\"true\"''),
      (''severity'', PStr ''HIGH''),
      (''recommendation'', PStr ''Disable cleartext traffic or limit to specific domains'')]"

definition no_pinning_configured :: "string \<Rightarrow> pydict" where
  "no_pinning_configured config =
     [(''file'', PStr config),
      (''line'', PInt 0),
      (''issue'', PStr ''No certificate pinning configured''),
      (''code'', PStr ''No <pin-set> elements found''),
      (''severity'', PStr ''MEDIUM''),
      (''recommendation'', PStr ''Configure certificate pinning for production APIs'')]"

definition android_config_findings :: "string \<Rightarrow> xml \<Rightarrow> pydict list" where
  "android_config_findings config root =
     (case find_first root ''base-config'' of
        None \<Rightarrow> []
      | Some base_config \<Rightarrow>
          if map_of (attrib base_config) ''cleartextTrafficPermitted'' = Some ''true''
          then [cleartext_permitted config] else []) @
     (if findall root ''pin-set'' = [] then [no_pinning_configured config] else [])"

definition network_security_config :: "string \<Rightarrow> string" where
  "network_security_config project_root =
     joinpath project_root
       [''android'', ''app'', ''src'', ''main'', ''res'', ''xml'', ''network_security_config.xml'']"

definition check_android_network_security :: "filesys \<Rightarrow> string \<Rightarrow> pydict list \<times> string list" where
  "check_android_network_security fs project_root =
     (if \<not> fs_exists fs (network_security_config project_root) then ([config_not_found], [])
      else (case fs_parse_xml fs (network_security_config project_root) of
              Inl e \<Rightarrow> ([], [''Error parsing network security config: '' @ str_exn e])
            | Inr root \<Rightarrow>
                (android_config_findings (network_security_config project_root) root, [])))"

subsection \<open>check_ios_ats_configuration\<close>

definition arbitrary_loads_true :: regex where
  "arbitrary_loads_true = cat [lit ''NSAllowsArbitraryLoads'', Rep AnyChar 0 None, lit ''<true/>'']"

definition ats_disabled :: "string \<Rightarrow> pydict" where
  "ats_disabled plist =
     [(''file'', PStr plist),
      (''line'', PInt 0),
      (''issue'', PStr ''App Transport Security disabled globally''),
      (''code'', PStr ''NSAllowsArbitraryLoads = true''),
      (''severity'', PStr ''CRITICAL''),
      (''recommendation'',
       PStr ''Enable ATS and use NSExceptionDomains for specific cases only'')]"

definition local_networking :: "string \<Rightarrow> pydict" where
  "local_networking plist =
     [(''file'', PStr plist),
      (''line'', PInt 0),
      (''issue'', PStr ''Local networking allowed''),
      (''code'', PStr ''NSAllowsLocalNetworking''),
      (''severity'', PStr ''LOW''),
      (''recommendation'', PStr ''Ensure this is intentional and only for development'')]"

definition ios_ats_findings :: "string \<Rightarrow> string \<Rightarrow> pydict list" where
  "ios_ats_findings plist content =
     (if str_in ''NSAllowsArbitraryLoads'' content \<and>
         re_search False arbitrary_loads_true content \<noteq> None
      then [ats_disabled plist] else []) @
     (if str_in ''NSAllowsLocalNetworking'' content then [local_networking plist] else [])"

definition info_plist :: "string \<Rightarrow> string" where
  "info_plist project_root = joinpath project_root [''ios'', ''Runner'', ''Info.plist'']"

definition check_ios_ats_configuration :: "filesys \<Rightarrow> string \<Rightarrow> pydict list \<times> string list" where
  "check_ios_ats_configuration fs project_root =
     (if \<not> fs_exists fs (info_plist project_root) then ([], [])
      else (case fs_read fs (info_plist project_root) of
              Inl e \<Rightarrow> ([], [''Error scanning Info.plist: '' @ str_exn e])
            | Inr content \<Rightarrow> (ios_ats_findings (info_plist project_root) content, [])))"

subsection \<open>scan_project\<close>

definition network_scan_file :: "filesys \<Rightarrow> string \<Rightarrow> pydict list \<times> string list" where
  "network_scan_file fs file_path =
     (let a = scan_http_usage fs file_path;
          b = check_certificate_pinning fs file_path
      in (fst a @ fst b, snd a @ snd b))"

definition network_scan_project :: "filesys \<Rightarrow> string \<Rightarrow> scan_result \<times> string list" where
  "network_scan_project fs project_root =
     (let dart_files = fs_glob fs project_root ''lib/**/*.dart'';
          scans = map (network_scan_file fs) dart_files;
          android = check_android_network_security fs project_root;
          ios = check_ios_ats_configuration fs project_root;
          all_findings = concat (map fst scans) @ fst android @ fst ios
      in (\<lparr>total_files_scanned = length dart_files,
           total_findings = length all_findings,
           findings = all_findings\<rparr>,
          concat (map snd scans) @ snd android @ snd ios))"

section \<open>check_dependencies.py\<close>

subsection \<open>check_version_constraints\<close>

text \<open>The body of the loop over \<open>all_deps.items()\<close>: the findings one entry appends.\<close>

fun version_finding :: "string \<times> pyval \<Rightarrow> pydict list" where
  "version_finding (package, version) =
     (if package = ''flutter'' then []
      else if version = PStr ''any'' then
        [[(''package'', PStr package),
          (''issue'', PStr ''Version constraint set to \"any\"''),
          (''severity'', PStr ''CRITICAL''),
          (''recommendation'', PStr ''Use specific version constraints (e.g., ^1.0.0)'')]]
      else if version = PNone then
        [[(''package'', PStr package),
          (''issue'', PStr ''No version constraint specified''),
          (''severity'', PStr ''HIGH''),
          (''recommendation'', PStr ''Specify a version constraint'')]]
      else [])"

definition check_version_constraints :: "pydict \<Rightarrow> exn + pydict list" where
  "check_version_constraints pubspec =
     (let dependencies = dict_get pubspec ''dependencies'' (PDict []);
          dev_dependencies = dict_get pubspec ''dev_dependencies'' (PDict [])
      in case dict_merge dependencies dev_dependencies of
           Inl e \<Rightarrow> Inl e
         | Inr all_deps \<Rightarrow> Inr (concat (map version_finding all_deps)))"

subsection \<open>load_pubspec\<close>

text \<open>
  A missing \<open>pubspec.yaml\<close> ends the script with \<open>sys.exit(1)\<close>; an error of the YAML
  parser is not caught.
\<close>

definition pubspec_path :: "string \<Rightarrow> string" where
  "pubspec_path project_root = joinpath project_root [''pubspec.yaml'']"

definition load_pubspec :: "filesys \<Rightarrow> string \<Rightarrow> outcome + pyval" where
  "load_pubspec fs project_root =
     (if \<not> fs_exists fs (pubspec_path project_root) then Inl (Exit 1)
      else (case fs_load_yaml fs (pubspec_path project_root) of
              Inl e \<Rightarrow> Inl (Uncaught e)
            | Inr v \<Rightarrow> Inr v))"

subsection \<open>check_outdated_packages\<close>

text \<open>
  Every way in which \<open>flutter pub outdated --json\<close> can fail, and an output that is not
  JSON, give the empty dictionary.
\<close>

definition check_outdated_packages :: "filesys \<Rightarrow> string \<Rightarrow> pyval" where
  "check_outdated_packages fs project_root =
     (case fs_pub_outdated fs project_root of
        Completed returncode out err \<Rightarrow>
          if returncode = 0 then
            (case fs_json_loads fs out of Inl e \<Rightarrow> PDict [] | Inr v \<Rightarrow> v)
          else PDict []
      | TimeoutExpired \<Rightarrow> PDict []
      | FileNotFoundError \<Rightarrow> PDict []
      | ProcError e \<Rightarrow> PDict [])"

subsection \<open>analyze_outdated_results\<close>

text \<open>\<open>int(v.split('.')[0]) if v.split('.')[0].isdigit() else 0\<close>; only a string has \<open>split\<close>.\<close>

definition version_major :: "pyval \<Rightarrow> exn + int" where
  "version_major v =
     (case v of
        PStr s \<Rightarrow> if isdigit (first_component s) then py_int (first_component s) else Inr 0
      | _ \<Rightarrow> Inl (AttributeError ''object has no attribute split''))"

definition outdated_severity :: "pyval \<Rightarrow> pyval \<Rightarrow> exn + string" where
  "outdated_severity current latest =
     (if truthy current \<and> truthy latest then
        (case version_major current of
           Inl e \<Rightarrow> Inl e
         | Inr current_major \<Rightarrow>
             (case version_major latest of
                Inl e \<Rightarrow> Inl e
              | Inr latest_major \<Rightarrow>
                  Inr (if latest_major > current_major then ''HIGH'' else ''MEDIUM'')))
      else Inr ''MEDIUM'')"

text \<open>\<open>package.get(field, {}).get('version')\<close>.\<close>

definition version_of :: "pyval \<Rightarrow> string \<Rightarrow> exn + pyval" where
  "version_of package field =
     (case py_get package field (PDict []) of
        Inl e \<Rightarrow> Inl e
      | Inr entry \<Rightarrow> py_get entry ''version'' PNone)"

text \<open>The body of the loop over \<open>packages\<close>: the findings one package appends, or the exception.\<close>

definition outdated_package :: "pyval \<Rightarrow> exn + pydict list" where
  "outdated_package package =
     (case version_of package ''current'' of
        Inl e \<Rightarrow> Inl e
      | Inr current \<Rightarrow>
     (case version_of package ''latest'' of
        Inl e \<Rightarrow> Inl e
      | Inr latest \<Rightarrow>
     (case version_of package ''resolvable'' of
        Inl e \<Rightarrow> Inl e
      | Inr resolvable \<Rightarrow>
     (case py_get package ''package'' PNone of
        Inl e \<Rightarrow> Inl e
      | Inr package_name \<Rightarrow>
          if \<not> py_eq current latest then
            (case outdated_severity current latest of
               Inl e \<Rightarrow> Inl e
             | Inr severity \<Rightarrow>
                 Inr [[(''package'', package_name),
                       (''current_version'', current),
                       (''latest_version'', latest),
                       (''resolvable_version'', resolvable),
                       (''severity'', PStr severity),
                       (''issue'', PStr ''Package is outdated''),
                       (''recommendation'', PStr (''Update to version '' @ py_str latest))]])
          else Inr []))))"

fun outdated_loop :: "pyval list \<Rightarrow> exn + pydict list" where
  "outdated_loop [] = Inr []"
| "outdated_loop (package # packages) =
     (case outdated_package package of
        Inl e \<Rightarrow> Inl e
      | Inr fs \<Rightarrow> (case outdated_loop packages of Inl e \<Rightarrow> Inl e | Inr rest \<Rightarrow> Inr (fs @ rest)))"

definition analyze_outdated_results :: "pyval \<Rightarrow> exn + pydict list" where
  "analyze_outdated_results outdated_data =
     (case py_get outdated_data ''packages'' (PList []) of
        Inl e \<Rightarrow> Inl e
      | Inr packages \<Rightarrow>
          (case py_iter packages of Inl e \<Rightarrow> Inl e | Inr ps \<Rightarrow> outdated_loop ps))"

subsection \<open>check_dangerous_packages\<close>

text \<open>The table \<open>dangerous_packages\<close>: package, versions, issue, severity.\<close>

definition dangerous_packages :: "(string \<times> string list \<times> string \<times> string) list" where
  "dangerous_packages =
    [(''http'', [''<0.13.0''], ''Old versions lack important security features'', ''HIGH''),
     (''path_provider'', [''<2.0.0''], ''Older versions have path traversal vulnerabilities'',
      ''MEDIUM'')]"

definition dangerous_finding :: "string \<times> string list \<times> string \<times> string \<Rightarrow> pydict" where
  "dangerous_finding entry =
     [(''package'', PStr (fst entry)),
      (''issue'', PStr (fst (snd (snd entry)))),
      (''severity'', PStr (snd (snd (snd entry)))),
      (''recommendation'', PStr ''Update to the latest stable version'')]"

fun dangerous_loop :: "pyval \<Rightarrow> (string \<times> string list \<times> string \<times> string) list \<Rightarrow> exn + pydict list" where
  "dangerous_loop dependencies [] = Inr []"
| "dangerous_loop dependencies (entry # entries) =
     (case py_contains dependencies (fst entry) of
        Inl e \<Rightarrow> Inl e
      | Inr present \<Rightarrow>
          (case dangerous_loop dependencies entries of
             Inl e \<Rightarrow> Inl e
           | Inr rest \<Rightarrow> Inr ((if present then [dangerous_finding entry] else []) @ rest)))"

definition check_dangerous_packages :: "pydict \<Rightarrow> exn + pydict list" where
  "check_dangerous_packages pubspec =
     dangerous_loop (dict_get pubspec ''dependencies'' (PDict [])) dangerous_packages"

section \<open>The reports and the exit status\<close>

subsection \<open>Grouping by severity\<close>

text \<open>
  \<^verbatim>\<open>
    by_severity = {'CRITICAL': [], 'HIGH': [], 'MEDIUM': [], 'LOW': []}
    for finding in findings:
        severity = finding.get('severity', 'MEDIUM')
        by_severity[severity].append(finding)
  \<close>
  A severity that is not one of the four keys raises \<open>KeyError\<close>, one that cannot be hashed
  raises \<open>TypeError\<close>.
\<close>

type_synonym groups = "(string \<times> pydict list) list"

definition empty_groups :: groups where
  "empty_groups = [(''CRITICAL'', []), (''HIGH'', []), (''MEDIUM'', []), (''LOW'', [])]"

definition group_step :: "groups \<Rightarrow> pydict \<Rightarrow> exn + groups" where
  "group_step by_severity finding =
     (case dict_get finding ''severity'' (PStr ''MEDIUM'') of
        PStr s \<Rightarrow>
          (case map_of by_severity s of
             None \<Rightarrow> Inl (KeyError (repr_str s))
           | Some fs \<Rightarrow> Inr (AList.update s (fs @ [finding]) by_severity))
      | PList xs \<Rightarrow> Inl (TypeError ''unhashable type'')
      | PDict d \<Rightarrow> Inl (TypeError ''unhashable type'')
      | v \<Rightarrow> Inl (KeyError (py_repr v)))"

fun group_by_severity :: "pydict list \<Rightarrow> groups \<Rightarrow> exn + groups" where
  "group_by_severity [] by_severity = Inr by_severity"
| "group_by_severity (finding # rest) by_severity =
     (case group_step by_severity finding of
        Inl e \<Rightarrow> Inl e
      | Inr g \<Rightarrow> group_by_severity rest g)"

definition severity_group :: "groups \<Rightarrow> string \<Rightarrow> pydict list" where
  "severity_group by_severity s = (case map_of by_severity s of None \<Rightarrow> [] | Some fs \<Rightarrow> fs)"

subsection \<open>Printing\<close>

text \<open>
  The console text is not modelled, but a report line that reads \<open>finding[k]\<close> raises
  \<open>KeyError\<close> when the key is missing.  \<open>require_keys ks f\<close> is the first exception that
  reading the keys \<open>ks\<close> of \<open>f\<close> in this order raises; \<open>first_error\<close> is the first exception
  of a sequence of steps.
\<close>

fun require_keys :: "string list \<Rightarrow> pydict \<Rightarrow> exn option" where
  "require_keys [] f = None"
| "require_keys (k # ks) f =
     (case map_of f k of None \<Rightarrow> Some (KeyError (repr_str k)) | Some v \<Rightarrow> require_keys ks f)"

fun first_error :: "exn option list \<Rightarrow> exn option" where
  "first_error [] = None"
| "first_error (None # steps) = first_error steps"
| "first_error (Some e # steps) = Some e"

text \<open>
  The loop \<open>for severity in ['CRITICAL', 'HIGH', 'MEDIUM', 'LOW']\<close> that prints each group,
  reading the keys \<open>keys f\<close> of each finding \<open>f\<close>.
\<close>

definition print_groups :: "(pydict \<Rightarrow> string list) \<Rightarrow> groups \<Rightarrow> exn option" where
  "print_groups keys by_severity =
     first_error
       (map (\<lambda>f. require_keys (keys f) f)
          (concat (map (severity_group by_severity) [''CRITICAL'', ''HIGH'', ''MEDIUM'', ''LOW''])))"

text \<open>
  The block \<open>if findings: ...\<close> of the storage, network and dependency scripts: it binds
  \<open>by_severity\<close> (the result is \<open>None\<close> while the name is unbound) and prints the groups.
\<close>

definition report_groups :: "(pydict \<Rightarrow> string list) \<Rightarrow> pydict list \<Rightarrow> exn + groups option" where
  "report_groups keys fs =
     (if fs \<noteq> [] then
        (case group_by_severity fs empty_groups of
           Inl e \<Rightarrow> Inl e
         | Inr by_severity \<Rightarrow>
             (case print_groups keys by_severity of
                Some e \<Rightarrow> Inl e
              | None \<Rightarrow> Inr (Some by_severity)))
      else Inr None)"

definition issue_keys :: "pydict \<Rightarrow> string list" where
  "issue_keys f = [''issue'', ''file'', ''line'', ''recommendation'']"

definition package_keys :: "pydict \<Rightarrow> string list" where
  "package_keys f =
     [''package'', ''issue''] @
     (if map_of f ''current_version'' \<noteq> None then [''current_version'', ''latest_version''] else []) @
     [''recommendation'']"

subsection \<open>main of scan_hardcoded_secrets.py\<close>

definition secrets_print :: "pydict list \<Rightarrow> exn option" where
  "secrets_print fs =
     (if fs \<noteq> [] then
        first_error
          (map (require_keys [''type'']) fs @
           map (require_keys [''severity'', ''type'', ''file'', ''line'', ''pattern'']) fs)
      else None)"

definition report_path :: "string \<Rightarrow> string \<Rightarrow> string" where
  "report_path project_root name = joinpath project_root [name]"

definition secrets_main :: "filesys \<Rightarrow> string list \<Rightarrow> outcome" where
  "secrets_main fs argv =
     (let project_root = (if length argv < 2 then fs_cwd fs else argv ! 1);
          results = fst (secrets_scan_project fs project_root)
      in case secrets_print (findings results) of
           Some e \<Rightarrow> Uncaught e
         | None \<Rightarrow>
             (case fs_write fs (report_path project_root ''owasp_m1_secrets_scan.json'') of
                Some e \<Rightarrow> Uncaught e
              | None \<Rightarrow> Exit (if 0 < total_findings results then 1 else 0)))"

subsection \<open>main of analyze_storage_security.py\<close>

definition storage_main :: "filesys \<Rightarrow> string list \<Rightarrow> outcome" where
  "storage_main fs argv =
     (let project_root = (if 1 < length argv then argv ! 1 else ''.'');
          results = fst (storage_scan_project fs project_root)
      in case report_groups issue_keys (findings results) of
           Inl e \<Rightarrow> Uncaught e
         | Inr by_severity \<Rightarrow>
             (case fs_write fs (report_path project_root ''owasp_m9_storage_scan.json'') of
                Some e \<Rightarrow> Uncaught e
              | None \<Rightarrow> Exit (if 0 < total_findings results then 1 else 0)))"

subsection \<open>main of check_network_security.py\<close>

text \<open>
  The last two lines read \<open>by_severity\<close>, which is bound only inside \<open>if results['findings']\<close>.
\<close>

definition critical_high_exit :: "groups option \<Rightarrow> outcome" where
  "critical_high_exit by_severity =
     (case by_severity of
        None \<Rightarrow> Uncaught (NameError ''name 'by_severity' is not defined'')
      | Some g \<Rightarrow>
          (let critical_high = length (severity_group g ''CRITICAL'') + length (severity_group g ''HIGH'')
           in Exit (if 0 < critical_high then 1 else 0)))"

definition network_main :: "filesys \<Rightarrow> string list \<Rightarrow> outcome" where
  "network_main fs argv =
     (let project_root = (if 1 < length argv then argv ! 1 else ''.'');
          results = fst (network_scan_project fs project_root)
      in case report_groups issue_keys (findings results) of
           Inl e \<Rightarrow> Uncaught e
         | Inr by_severity \<Rightarrow>
             (case fs_write fs (report_path project_root ''owasp_m5_network_scan.json'') of
                Some e \<Rightarrow> Uncaught e
              | None \<Rightarrow> critical_high_exit by_severity))"

subsection \<open>main of check_dependencies.py\<close>

text \<open>
  The three checks in the order of the script; the first exception ends it.  A pubspec that
  is not a mapping has no \<open>get\<close>.
\<close>

definition as_dict :: "pyval \<Rightarrow> exn + pydict" where
  "as_dict v =
     (case v of
        PDict d \<Rightarrow> Inr d
      | _ \<Rightarrow> Inl (AttributeError ''object has no attribute get''))"

definition dependency_findings :: "filesys \<Rightarrow> string \<Rightarrow> pyval \<Rightarrow> exn + pydict list" where
  "dependency_findings fs project_root pubspec =
     (case as_dict pubspec of
        Inl e \<Rightarrow> Inl e
      | Inr d \<Rightarrow>
     (case check_version_constraints d of
        Inl e \<Rightarrow> Inl e
      | Inr constraint_findings \<Rightarrow>
     (let outdated_data = check_outdated_packages fs project_root
      in case (if truthy outdated_data then analyze_outdated_results outdated_data else Inr []) of
           Inl e \<Rightarrow> Inl e
         | Inr outdated_findings \<Rightarrow>
             (case check_dangerous_packages d of
                Inl e \<Rightarrow> Inl e
              | Inr dangerous_findings \<Rightarrow>
                  Inr (constraint_findings @ outdated_findings @ dangerous_findings)))))"

definition dependencies_main :: "filesys \<Rightarrow> string list \<Rightarrow> outcome" where
  "dependencies_main fs argv =
     (let project_root = (if 1 < length argv then argv ! 1 else ''.'')
      in case load_pubspec fs project_root of
           Inl out \<Rightarrow> out
         | Inr pubspec \<Rightarrow>
             (case dependency_findings fs project_root pubspec of
                Inl e \<Rightarrow> Uncaught e
              | Inr all_findings \<Rightarrow>
                  (case report_groups package_keys all_findings of
                     Inl e \<Rightarrow> Uncaught e
                   | Inr by_severity \<Rightarrow>
                       (case fs_write fs (report_path project_root ''owasp_m2_dependencies_scan.json'') of
                          Some e \<Rightarrow> Uncaught e
                        | None \<Rightarrow> critical_high_exit by_severity))))"

section \<open>Well-formed findings and sample projects\<close>

text \<open>
  \<open>severity f\<close> is the read \<open>finding.get('severity', 'MEDIUM')\<close> of the reports.  A finding
  has a valid severity when it carries the field \<open>severity\<close> and the value of the field is one
  of \<open>CRITICAL\<close>, \<open>HIGH\<close>, \<open>MEDIUM\<close> and \<open>LOW\<close>.  The grouping loop needs less: the value it
  reads, which is \<open>MEDIUM\<close> when the field is absent, must be a key of \<open>by_severity\<close>.
\<close>

definition severity :: "pydict \<Rightarrow> pyval" where
  "severity f = dict_get f ''severity'' (PStr ''MEDIUM'')"

definition valid_severity :: "pydict \<Rightarrow> bool" where
  "valid_severity f =
     (map_of f ''severity'' \<in>
        {Some (PStr ''CRITICAL''), Some (PStr ''HIGH''), Some (PStr ''MEDIUM''), Some (PStr ''LOW'')})"

definition severity_key :: "pydict \<Rightarrow> bool" where
  "severity_key f =
     (severity f \<in> {PStr ''CRITICAL'', PStr ''HIGH'', PStr ''MEDIUM'', PStr ''LOW''})"

definition critical_or_high :: "pydict \<Rightarrow> bool" where
  "critical_or_high f = (severity f = PStr ''CRITICAL'' \<or> severity f = PStr ''HIGH'')"

text \<open>
  Sample projects.  \<open>one_file_project p content\<close> has the single Dart file \<open>p\<close> with the
  given content and nothing else.  \<open>empty_project\<close> has no file at all and a writable root.  \<open>sample_project\<close>
  has two Dart files, one of which cannot be read, a manifest and an \<open>Info.plist\<close>, and no
  network security configuration.
\<close>

definition empty_project :: filesys where
  "empty_project =
     \<lparr>fs_glob = (\<lambda>root pat. []),
      fs_exists = (\<lambda>p. False),
      fs_read_ignore = (\<lambda>p. Inl (OSError ''No such file or directory'')),
      fs_read = (\<lambda>p. Inl (OSError ''No such file or directory'')),
      fs_parse_xml = (\<lambda>p. Inl (OSError ''No such file or directory'')),
      fs_load_yaml = (\<lambda>p. Inl (OSError ''No such file or directory'')),
      fs_json_loads = (\<lambda>s. Inl (ValueError ''Expecting value'')),
      fs_pub_outdated = (\<lambda>root. FileNotFoundError),
      fs_write = (\<lambda>p. None),
      fs_cwd = ''/app''\<rparr>"

definition one_file_project :: "string \<Rightarrow> string \<Rightarrow> filesys" where
  "one_file_project file_path content =
     \<lparr>fs_glob = (\<lambda>root pat. if pat = ''lib/**/*.dart'' then [file_path] else []),
      fs_exists = (\<lambda>p. p = file_path),
      fs_read_ignore = (\<lambda>p. if p = file_path then Inr content
                              else Inl (OSError ''No such file or directory'')),
      fs_read = (\<lambda>p. if p = file_path then Inr content
                       else Inl (OSError ''No such file or directory'')),
      fs_parse_xml = (\<lambda>p. Inl (OSError ''No such file or directory'')),
      fs_load_yaml = (\<lambda>p. Inl (OSError ''No such file or directory'')),
      fs_json_loads = (\<lambda>s. Inl (ValueError ''Expecting value'')),
      fs_pub_outdated = (\<lambda>root. FileNotFoundError),
      fs_write = (\<lambda>p. None),
      fs_cwd = ''/app''\<rparr>"

definition sample_manifest :: string where
  "sample_manifest = ''<application android:allowBackup=\"true\">''"

definition sample_dart :: string where
  "sample_dart = ''// pwd = \"hunter2hunter2\"\<newline>final pwd = \"hunter2hunter2\";''"

definition sample_project :: filesys where
  "sample_project =
     \<lparr>fs_glob = (\<lambda>root pat. if root = ''/app'' \<and> pat = ''lib/**/*.dart''
                              then [''/app/lib/locked.dart'', ''/app/lib/a.dart''] else []),
      fs_exists = (\<lambda>p. p \<in> {''/app/android/app/src/main/AndroidManifest.xml'',
                             ''/app/ios/Runner/Info.plist'', ''/app/pubspec.yaml''}),
      fs_read_ignore = (\<lambda>p. if p = ''/app/lib/a.dart'' then Inr sample_dart
                              else Inl (OSError ''Permission denied'')),
      fs_read = (\<lambda>p. if p = ''/app/android/app/src/main/AndroidManifest.xml'' then Inr sample_manifest
                       else if p = ''/app/ios/Runner/Info.plist'' then Inr ''<plist></plist>''
                       else Inl (OSError ''Permission denied'')),
      fs_parse_xml = (\<lambda>p. Inl (OSError ''No such file or directory'')),
      fs_load_yaml = (\<lambda>p. if p = ''/app/pubspec.yaml''
                            then Inr (PDict [(''dependencies'', PDict [(''http'', PStr ''any'')])])
                            else Inl (OSError ''No such file or directory'')),
      fs_json_loads = (\<lambda>s. Inl (ValueError ''Expecting value'')),
      fs_pub_outdated = (\<lambda>root. FileNotFoundError),
      fs_write = (\<lambda>p. None),
      fs_cwd = ''/app''\<rparr>"

text \<open>A line whose quoted value is the placeholder of the documentation.\<close>

definition placeholder_line :: string where
  "placeholder_line = ''pwd = \"your-api-key\"''"

text \<open>
  \<open>io_project\<close> has two Dart files: \<open>locked.dart\<close> cannot be read, \<open>io.dart\<close> writes to a stream
  and fetches a URL over HTTP.
\<close>

definition sample_io :: string where
  "sample_io = ''final sink = file.openWrite();\<newline>final url = \"http://api.host/v1\";''"

definition io_project :: filesys where
  "io_project =
     \<lparr>fs_glob = (\<lambda>root pat. if root = ''/app'' \<and> pat = ''lib/**/*.dart''
                              then [''/app/lib/locked.dart'', ''/app/lib/io.dart''] else []),
      fs_exists = (\<lambda>p. False),
      fs_read_ignore = (\<lambda>p. if p = ''/app/lib/io.dart'' then Inr sample_io
                              else Inl (OSError ''Permission denied'')),
      fs_read = (\<lambda>p. Inl (OSError ''Permission denied'')),
      fs_parse_xml = (\<lambda>p. Inl (OSError ''No such file or directory'')),
      fs_load_yaml = (\<lambda>p. Inl (OSError ''No such file or directory'')),
      fs_json_loads = (\<lambda>s. Inl (ValueError ''Expecting value'')),
      fs_pub_outdated = (\<lambda>root. FileNotFoundError),
      fs_write = (\<lambda>p. None),
      fs_cwd = ''/app''\<rparr>"


section \<open>Strings, events and the try block\<close>

text \<open>
  Lowering a character adds 32 to the code point of an upper-case letter, and the upper-case
  partner of a lower-case letter is 32 below it.
\<close>

lemma py_lower_code_point:
  "of_char (py_lower c) = (if is_upper c then of_char c + 32 else (of_char c :: nat))"
  by (cases c) (auto simp: py_lower_def is_upper_def less_eq_char_def)

lemma py_upper_code_point:
  "(of_char (py_upper c) :: nat) = (if is_lower c then of_char c - 32 else of_char c)"
  by (cases c) (auto simp: py_upper_def is_lower_def less_eq_char_def)

text \<open>\<open>startswith\<close> and \<open>str_in\<close> are the prefix and the substring test.\<close>

lemma startswith_iff: "startswith s p \<longleftrightarrow> (\<exists>post. s = p @ post)"
  unfolding startswith_def
  by (metis append_eq_conv_conj append_take_drop_id)

lemma str_in_iff: "str_in sub s \<longleftrightarrow> (\<exists>pre post. s = pre @ sub @ post)"
proof (induction s)
  case Nil
  then show ?case by auto
next
  case (Cons c cs)
  show ?case
  proof
    assume "str_in sub (c # cs)"
    then consider "startswith (c # cs) sub" | "str_in sub cs" by auto
    then show "\<exists>pre post. c # cs = pre @ sub @ post"
    proof cases
      case 1
      then obtain post where "c # cs = sub @ post" by (auto simp: startswith_iff)
      then have "c # cs = [] @ sub @ post" by simp
      then show ?thesis by blast
    next
      case 2
      with Cons.IH obtain pre post where "cs = pre @ sub @ post" by auto
      then have "c # cs = (c # pre) @ sub @ post" by simp
      then show ?thesis by blast
    qed
  next
    assume "\<exists>pre post. c # cs = pre @ sub @ post"
    then obtain pre post where eq: "c # cs = pre @ sub @ post" by auto
    show "str_in sub (c # cs)"
    proof (cases pre)
      case Nil
      with eq have "startswith (c # cs) sub" by (auto simp: startswith_iff)
      then show ?thesis by simp
    next
      case (Cons p ps)
      with eq have "cs = ps @ sub @ post" by simp
      with Cons.IH have "str_in sub cs" by blast
      then show ?thesis by simp
    qed
  qed
qed

lemma collect_emit: "f \<in> set (fst (collect evs)) \<Longrightarrow> Emit f \<in> set evs"
proof (induction evs rule: collect.induct)
  case (3 g evs)
  then show ?case by (auto split: prod.splits)
qed auto


lemma try_scan_unreadable: "try_scan p (Inl e) body = ([], [error_line p e])"
  by (simp add: try_scan_def)

lemma try_scan_emit:
  assumes "f \<in> set (fst (try_scan p rd body))"
  shows "\<exists>content. rd = Inr content \<and> Emit f \<in> set (body content)"
proof (cases rd)
  case (Inl e)
  with assms show ?thesis by (simp add: try_scan_def)
next
  case (Inr content)
  with assms have "f \<in> set (fst (collect (body content)))"
    by (auto simp: try_scan_def split: prod.splits option.splits)
  then have "Emit f \<in> set (body content)" by (rule collect_emit)
  with Inr show ?thesis by simp
qed

text \<open>
  Paths.  The root \<open>/app\<close> of the sample projects is already normal, so its files are at the
  root followed by their names; the roots \<open>.\<close>, \<open>app/\<close> and \<open>./app\<close> are normalised.
\<close>

lemma app_root: "path_anchor ''/app'' = ''/''" "path_components ''/app'' = [''app'']"
  by code_simp+

lemma app_paths:
  "android_manifest ''/app'' = ''/app/android/app/src/main/AndroidManifest.xml''"
  "info_plist ''/app'' = ''/app/ios/Runner/Info.plist''"
  "network_security_config ''/app'' =
     ''/app/android/app/src/main/res/xml/network_security_config.xml''"
  "pubspec_path ''/app'' = ''/app/pubspec.yaml''"
  by code_simp+

lemma joinpath_normalises:
  "joinpath ''.'' [''pubspec.yaml''] = ''pubspec.yaml''"
  "joinpath [] [''pubspec.yaml''] = ''pubspec.yaml''"
  "joinpath ''app/'' [''ios'', ''Runner'', ''Info.plist''] = ''app/ios/Runner/Info.plist''"
  "joinpath ''./app'' [''ios'', ''Runner'', ''Info.plist''] = ''app/ios/Runner/Info.plist''"
  "joinpath ''//srv///app/.'' [''pubspec.yaml''] = ''//srv/app/pubspec.yaml''"
  "joinpath ''///app'' [''pubspec.yaml''] = ''/app/pubspec.yaml''"
  "joinpath ''../app'' [''pubspec.yaml''] = ''../app/pubspec.yaml''"
  by code_simp+

section \<open>The shape of the findings\<close>

text \<open>
  Every finding a scanning function appends carries a severity among the four keys of
  \<open>by_severity\<close> and the keys the report of its script reads.
\<close>

lemma secret_match_emit:
  assumes "Emit f \<in> set (secret_match_events p n line r t mt)"
  shows "\<exists>v. match_value r mt = Some v \<and> \<not> is_false_positive v \<and>
             f = [(''file'', PStr p), (''line'', PInt (int n)), (''type'', PStr t),
                  (''pattern'', PStr (strip line)), (''severity'', PStr ''HIGH'')]"
  using assms by (auto simp: secret_match_events_def split: option.splits if_splits)

lemma secrets_emit:
  assumes "Emit f \<in> set (scan_file_events p content)"
  shows "valid_severity f \<and>
         require_keys [''severity'', ''type'', ''file'', ''line'', ''pattern''] f = None"
proof -
  from assms obtain n line r t mt where "Emit f \<in> set (secret_match_events p n line r t mt)"
    by (auto simp: scan_file_events_def secret_line_events_def secret_rule_events_def
        split: if_splits)
  from secret_match_emit [OF this] obtain v where
    "f = [(''file'', PStr p), (''line'', PInt (int n)), (''type'', PStr t),
          (''pattern'', PStr (strip line)), (''severity'', PStr ''HIGH'')]" by blast
  then show ?thesis
    by (simp add: valid_severity_def severity_def dict_get_def)
qed

lemma prefs_emit:
  assumes "Emit f \<in> set (shared_preferences_events p content)"
  shows "valid_severity f \<and> require_keys (issue_keys f) f = None"
  using assms
  by (auto simp: shared_preferences_events_def prefs_line_events_def prefs_rule_events_def
        valid_severity_def severity_def dict_get_def issue_keys_def Let_def
      split: if_splits)

lemma file_storage_emit:
  assumes "Emit f \<in> set (file_storage_events p content)"
  shows "valid_severity f \<and> require_keys (issue_keys f) f = None"
  using assms
  by (auto simp: file_storage_events_def storage_line_events_def storage_rule_events_def
        valid_severity_def severity_def dict_get_def issue_keys_def Let_def
      split: if_splits)

lemma database_emit:
  assumes "Emit f \<in> set (database_events p content)"
  shows "valid_severity f \<and> require_keys (issue_keys f) f = None"
  using assms
  by (auto simp: database_events_def database_line_events_def sqflite_finding_def
        valid_severity_def severity_def dict_get_def issue_keys_def Let_def
      split: if_splits)

lemma backup_emit:
  assumes "Emit f \<in> set (backup_events p content)"
  shows "valid_severity f \<and> require_keys (issue_keys f) f = None \<and> map_of f ''line'' = Some (PInt 0)"
  using assms
  by (auto simp: backup_events_def backup_not_configured_def backup_enabled_def
        valid_severity_def severity_def dict_get_def issue_keys_def
      split: if_splits)

lemma http_emit:
  assumes "Emit f \<in> set (http_usage_events p content)"
  shows "valid_severity f \<and> require_keys (issue_keys f) f = None"
  using assms
  by (auto simp: http_usage_events_def http_line_events_def http_rule_events_def http_finding_def
        valid_severity_def severity_def dict_get_def issue_keys_def
      split: if_splits)

lemma pinning_emit:
  assumes "Emit f \<in> set (certificate_pinning_events p content)"
  shows "valid_severity f \<and> require_keys (issue_keys f) f = None \<and> map_of f ''line'' = Some (PInt 0)"
  using assms
  by (auto simp: certificate_pinning_events_def validation_disabled_def no_pinning_detected_def
        valid_severity_def severity_def dict_get_def issue_keys_def Let_def
      split: if_splits)

lemma android_finding:
  assumes "f \<in> set (fst (check_android_network_security fs root))"
  shows "valid_severity f \<and> require_keys (issue_keys f) f = None \<and> map_of f ''line'' = Some (PInt 0)"
proof -
  from assms consider "f = config_not_found"
    | c where "f = cleartext_permitted c" | c where "f = no_pinning_configured c"
    by (auto simp: check_android_network_security_def android_config_findings_def Let_def
        split: if_splits sum.splits option.splits)
  then show ?thesis
  proof cases
    case 1
    then show ?thesis
      by (simp add: config_not_found_def valid_severity_def severity_def dict_get_def issue_keys_def)
  next
    case 2
    then show ?thesis
      by (simp add: cleartext_permitted_def valid_severity_def severity_def dict_get_def
          issue_keys_def)
  next
    case 3
    then show ?thesis
      by (simp add: no_pinning_configured_def valid_severity_def severity_def dict_get_def
          issue_keys_def)
  qed
qed

lemma ios_finding:
  assumes "f \<in> set (fst (check_ios_ats_configuration fs root))"
  shows "valid_severity f \<and> require_keys (issue_keys f) f = None \<and> map_of f ''line'' = Some (PInt 0)"
  using assms
  by (auto simp: check_ios_ats_configuration_def ios_ats_findings_def Let_def
        ats_disabled_def local_networking_def
        valid_severity_def severity_def dict_get_def issue_keys_def
      split: if_splits sum.splits)

lemma backup_finding:
  assumes "f \<in> set (fst (scan_backup_configuration fs root))"
  shows "valid_severity f \<and> require_keys (issue_keys f) f = None \<and> map_of f ''line'' = Some (PInt 0)"
proof -
  from assms obtain m content where "Emit f \<in> set (backup_events m content)"
    by (auto simp: scan_backup_configuration_def split: if_splits dest: try_scan_emit)
  then show ?thesis by (rule backup_emit)
qed

lemma scan_file_finding:
  assumes "f \<in> set (fst (scan_file fs p))"
  shows "valid_severity f \<and>
         require_keys [''severity'', ''type'', ''file'', ''line'', ''pattern''] f = None"
  using assms by (auto simp: scan_file_def dest!: try_scan_emit secrets_emit)

lemma storage_file_finding:
  assumes "f \<in> set (fst (storage_scan_file fs p))"
  shows "valid_severity f \<and> require_keys (issue_keys f) f = None"
  using assms
  by (auto simp: storage_scan_file_def Let_def scan_shared_preferences_usage_def
        scan_file_storage_def scan_database_security_def
      dest!: try_scan_emit prefs_emit file_storage_emit database_emit)

lemma network_file_finding:
  assumes "f \<in> set (fst (network_scan_file fs p))"
  shows "valid_severity f \<and> require_keys (issue_keys f) f = None"
  using assms
  by (auto simp: network_scan_file_def Let_def scan_http_usage_def check_certificate_pinning_def
      dest!: try_scan_emit http_emit pinning_emit)

lemma secrets_project_finding:
  assumes "f \<in> set (findings (fst (secrets_scan_project fs root)))"
  shows "valid_severity f \<and>
         require_keys [''severity'', ''type'', ''file'', ''line'', ''pattern''] f = None"
  using assms by (auto simp: secrets_scan_project_def Let_def dest!: scan_file_finding)

lemma storage_project_finding:
  assumes "f \<in> set (findings (fst (storage_scan_project fs root)))"
  shows "valid_severity f \<and> require_keys (issue_keys f) f = None"
  using assms
  by (auto simp: storage_scan_project_def Let_def dest!: storage_file_finding backup_finding)

lemma network_project_finding:
  assumes "f \<in> set (findings (fst (network_scan_project fs root)))"
  shows "valid_severity f \<and> require_keys (issue_keys f) f = None"
  using assms
  by (auto simp: network_scan_project_def Let_def
      dest!: network_file_finding android_finding ios_finding)

subsection \<open>The findings of check_dependencies.py\<close>

lemma version_finding_shape:
  assumes "f \<in> set (version_finding kv)"
  shows "valid_severity f \<and> require_keys (package_keys f) f = None"
  using assms
  by (cases kv)
     (auto simp: valid_severity_def severity_def dict_get_def package_keys_def split: if_splits)

lemma check_version_constraints_shape:
  assumes "check_version_constraints pubspec = Inr fs" and "f \<in> set fs"
  shows "valid_severity f \<and> require_keys (package_keys f) f = None"
  using assms
  by (auto simp: check_version_constraints_def Let_def split: sum.splits
      dest!: version_finding_shape)

lemma outdated_severity_cases:
  "outdated_severity current latest = Inr s \<Longrightarrow> s = ''HIGH'' \<or> s = ''MEDIUM''"
  by (auto simp: outdated_severity_def split: if_splits sum.splits)

lemma outdated_package_shape:
  assumes "outdated_package package = Inr fs" and "f \<in> set fs"
  shows "valid_severity f \<and> require_keys (package_keys f) f = None"
proof -
  from assms obtain name current latest resolvable s where
    f: "f = [(''package'', name), (''current_version'', current), (''latest_version'', latest),
             (''resolvable_version'', resolvable), (''severity'', PStr s),
             (''issue'', PStr ''Package is outdated''),
             (''recommendation'', PStr (''Update to version '' @ py_str latest))]"
    and s: "outdated_severity current latest = Inr s"
    by (auto simp: outdated_package_def split: sum.splits if_splits)
  from outdated_severity_cases [OF s] show ?thesis
    by (auto simp: f valid_severity_def severity_def dict_get_def package_keys_def)
qed

lemma outdated_loop_shape:
  "outdated_loop ps = Inr fs \<Longrightarrow> f \<in> set fs \<Longrightarrow>
   valid_severity f \<and> require_keys (package_keys f) f = None"
proof (induction ps arbitrary: fs)
  case Nil
  then show ?case by simp
next
  case (Cons p ps)
  from Cons.prems(1) obtain a b where a: "outdated_package p = Inr a"
    and b: "outdated_loop ps = Inr b" and fs: "fs = a @ b"
    by (auto split: sum.splits)
  from Cons.prems(2) fs consider "f \<in> set a" | "f \<in> set b" by auto
  then show ?case
  proof cases
    case 1
    with a show ?thesis by (rule outdated_package_shape)
  next
    case 2
    with b show ?thesis by (rule Cons.IH)
  qed
qed

lemma analyze_outdated_results_shape:
  assumes "analyze_outdated_results outdated_data = Inr fs" and "f \<in> set fs"
  shows "valid_severity f \<and> require_keys (package_keys f) f = None"
  using assms
  by (auto simp: analyze_outdated_results_def split: sum.splits dest: outdated_loop_shape)

lemma dangerous_finding_shape:
  assumes "entry \<in> set dangerous_packages"
  shows "valid_severity (dangerous_finding entry) \<and>
         require_keys (package_keys (dangerous_finding entry)) (dangerous_finding entry) = None"
  using assms
  by (auto simp: dangerous_packages_def dangerous_finding_def valid_severity_def severity_def
        dict_get_def package_keys_def)

lemma dangerous_loop_shape:
  "dangerous_loop deps entries = Inr fs \<Longrightarrow> f \<in> set fs \<Longrightarrow>
   f \<in> dangerous_finding ` set entries"
proof (induction entries arbitrary: fs)
  case Nil
  then show ?case by simp
next
  case (Cons entry entries)
  from Cons.prems(1) obtain present rest where
    rest: "dangerous_loop deps entries = Inr rest"
    and fs: "fs = (if present then [dangerous_finding entry] else []) @ rest"
    by (auto split: sum.splits)
  from Cons.prems(2) fs consider "f = dangerous_finding entry" | "f \<in> set rest"
    by (auto split: if_splits)
  then show ?case
  proof cases
    case 1
    then show ?thesis by simp
  next
    case 2
    with Cons.IH [OF rest] show ?thesis by auto
  qed
qed

lemma check_dangerous_packages_shape:
  assumes "check_dangerous_packages pubspec = Inr fs" and "f \<in> set fs"
  shows "valid_severity f \<and> require_keys (package_keys f) f = None"
proof -
  from assms have "f \<in> dangerous_finding ` set dangerous_packages"
    unfolding check_dangerous_packages_def by (rule dangerous_loop_shape)
  then show ?thesis by (auto dest: dangerous_finding_shape)
qed

lemma dependency_findings_shape:
  assumes "dependency_findings fs root pubspec = Inr all_findings" and "f \<in> set all_findings"
  shows "valid_severity f \<and> require_keys (package_keys f) f = None"
proof -
  from assms(1) obtain d a b c where
    a: "check_version_constraints d = Inr a"
    and b: "(if truthy (check_outdated_packages fs root)
             then analyze_outdated_results (check_outdated_packages fs root) else Inr []) = Inr b"
    and c: "check_dangerous_packages d = Inr c"
    and all: "all_findings = a @ b @ c"
    by (auto simp: dependency_findings_def Let_def split: sum.splits)
  from assms(2) all consider "f \<in> set a" | "f \<in> set b" | "f \<in> set c" by auto
  then show ?thesis
  proof cases
    case 1
    with a show ?thesis by (rule check_version_constraints_shape)
  next
    case 2
    with b show ?thesis
      by (auto split: if_splits dest: analyze_outdated_results_shape)
  next
    case 3
    with c show ?thesis by (rule check_dangerous_packages_shape)
  qed
qed

subsection \<open>Grouping by severity\<close>

text \<open>
  On findings with valid severities the grouping loop completes, and each group is the
  sublist of the findings that carry its severity.
\<close>

lemma valid_severity_key: "valid_severity f \<Longrightarrow> severity_key f"
  by (auto simp: valid_severity_def severity_key_def severity_def dict_get_def)

lemma group_step_valid:
  assumes keys: "map fst g = [''CRITICAL'', ''HIGH'', ''MEDIUM'', ''LOW'']"
    and v: "severity_key f"
  shows "\<exists>s. severity f = PStr s \<and>
             group_step g f = Inr (AList.update s (severity_group g s @ [f]) g) \<and>
             s \<in> fst ` set g"
proof -
  from v obtain s where s: "severity f = PStr s"
    and mem: "s \<in> {''CRITICAL'', ''HIGH'', ''MEDIUM'', ''LOW''}"
    by (auto simp: severity_key_def)
  from keys have "fst ` set g = {''CRITICAL'', ''HIGH'', ''MEDIUM'', ''LOW''}"
    by (metis list.set_map list.simps(15) empty_set)
  with mem have in_g: "s \<in> fst ` set g" by simp
  then obtain fs where fs: "map_of g s = Some fs"
    by (metis map_of_eq_None_iff not_Some_eq)
  then have "severity_group g s = fs" by (simp add: severity_group_def)
  with s fs in_g show ?thesis
    by (simp add: group_step_def severity_def)
qed

lemma map_fst_update: "k \<in> fst ` set g \<Longrightarrow> map fst (AList.update k v g) = map fst g"
  by (induction g) auto

lemma group_update:
  "severity_group (AList.update k v g) s = (if s = k then v else severity_group g s)"
  by (simp add: severity_group_def update_conv')

lemma group_by_severity_valid:
  assumes "map fst g = [''CRITICAL'', ''HIGH'', ''MEDIUM'', ''LOW'']"
    and "\<forall>f \<in> set fs. severity_key f"
  shows "\<exists>g'. group_by_severity fs g = Inr g' \<and>
              map fst g' = [''CRITICAL'', ''HIGH'', ''MEDIUM'', ''LOW''] \<and>
              (\<forall>s. severity_group g' s = severity_group g s @ filter (\<lambda>f. severity f = PStr s) fs)"
  using assms
proof (induction fs arbitrary: g)
  case Nil
  then show ?case by simp
next
  case (Cons f fs)
  from Cons.prems have v: "severity_key f" by simp
  from group_step_valid [OF Cons.prems(1) v] obtain s where
    s: "severity f = PStr s"
    and step: "group_step g f = Inr (AList.update s (severity_group g s @ [f]) g)"
    and mem: "s \<in> fst ` set g" by blast
  let ?g1 = "AList.update s (severity_group g s @ [f]) g"
  have keys1: "map fst ?g1 = [''CRITICAL'', ''HIGH'', ''MEDIUM'', ''LOW'']"
    using Cons.prems(1) mem by (simp add: map_fst_update)
  from Cons.prems(2) have rest: "\<forall>f \<in> set fs. severity_key f" by simp
  from Cons.IH [OF keys1 rest] obtain g' where
    g': "group_by_severity fs ?g1 = Inr g'"
    and keys': "map fst g' = [''CRITICAL'', ''HIGH'', ''MEDIUM'', ''LOW'']"
    and grp: "\<forall>t. severity_group g' t = severity_group ?g1 t @ filter (\<lambda>f. severity f = PStr t) fs"
    by auto
  have "\<forall>t. severity_group g' t = severity_group g t @ filter (\<lambda>f. severity f = PStr t) (f # fs)"
    using grp s by (auto simp: group_update)
  with g' keys' step show ?case by simp
qed

lemma group_empty: "severity_group empty_groups s = []"
  by (simp add: severity_group_def empty_groups_def)

lemma group_by_severity_ok:
  assumes "\<forall>f \<in> set fs. severity_key f"
  shows "\<exists>g. group_by_severity fs empty_groups = Inr g \<and>
             (\<forall>s. severity_group g s = filter (\<lambda>f. severity f = PStr s) fs)"
proof -
  have "map fst empty_groups = [''CRITICAL'', ''HIGH'', ''MEDIUM'', ''LOW'']"
    by (simp add: empty_groups_def)
  from group_by_severity_valid [OF this assms] show ?thesis
    by (auto simp: group_empty)
qed

lemma first_error_none: "(\<forall>x \<in> set steps. x = None) \<Longrightarrow> first_error steps = None"
  by (induction steps rule: first_error.induct) auto

lemma report_groups_ok:
  assumes "\<forall>f \<in> set fs. valid_severity f \<and> require_keys (keys f) f = None"
  shows "\<exists>r. report_groups keys fs = Inr r \<and>
             (fs = [] \<longrightarrow> r = None) \<and>
             (fs \<noteq> [] \<longrightarrow> (\<exists>g. r = Some g \<and>
                (\<forall>s. severity_group g s = filter (\<lambda>f. severity f = PStr s) fs)))"
proof (cases "fs = []")
  case True
  then show ?thesis by (simp add: report_groups_def)
next
  case False
  from assms have "\<forall>f \<in> set fs. severity_key f" by (simp add: valid_severity_key)
  from group_by_severity_ok [OF this] obtain g where
    g: "group_by_severity fs empty_groups = Inr g"
    and grp: "\<forall>s. severity_group g s = filter (\<lambda>f. severity f = PStr s) fs" by blast
  have "print_groups keys g = None"
    unfolding print_groups_def
    by (rule first_error_none) (use assms grp in auto)
  with g grp False show ?thesis by (simp add: report_groups_def)
qed

lemma critical_high_exit_groups:
  assumes "\<forall>s. severity_group g s = filter (\<lambda>f. severity f = PStr s) fs"
  shows "critical_high_exit (Some g) = Exit (if \<exists>f \<in> set fs. critical_or_high f then 1 else 0)"
proof -
  have "(0 < length (severity_group g ''CRITICAL'') + length (severity_group g ''HIGH'')) \<longleftrightarrow>
        (\<exists>f \<in> set fs. critical_or_high f)"
    using assms by (auto simp: critical_or_high_def filter_empty_conv)
  then show ?thesis by (simp add: critical_high_exit_def Let_def)
qed

section \<open>The project-level checks\<close>





text \<open>
  Claim C7 as stated fails: the iOS check and the backup check return no finding when their
  file is absent.
\<close>

theorem C7_counterexample:
  "\<not> fs_exists empty_project (info_plist ''/app'')
   \<and> check_ios_ats_configuration empty_project ''/app'' = ([], [])"
  by (simp add: check_ios_ats_configuration_def empty_project_def)

text \<open>
  Claim C7, amended.  No project-level check is fatal when its file is absent.  An absent
  network security configuration gives exactly one finding, of severity MEDIUM; an absent
  \<open>Info.plist\<close> and an absent Android manifest give no finding.
\<close>

theorem C7_absent_artifacts_amended:
  "(\<not> fs_exists fs (network_security_config root) \<longrightarrow>
      check_android_network_security fs root = ([config_not_found], []))
   \<and> severity config_not_found = PStr ''MEDIUM''
   \<and> (\<not> fs_exists fs (info_plist root) \<longrightarrow> check_ios_ats_configuration fs root = ([], []))
   \<and> (\<not> fs_exists fs (android_manifest root) \<longrightarrow> scan_backup_configuration fs root = ([], []))"
  by (simp add: check_android_network_security_def check_ios_ats_configuration_def
      scan_backup_configuration_def severity_def dict_get_def config_not_found_def)

theorem C7_witness:
  "\<not> fs_exists empty_project (network_security_config ''/app'')
   \<and> check_android_network_security empty_project ''/app'' = ([config_not_found], [])
   \<and> check_ios_ats_configuration empty_project ''/app'' = ([], [])
   \<and> scan_backup_configuration empty_project ''/app'' = ([], [])"
  using C7_absent_artifacts_amended [of empty_project "''/app''"]
  by (simp add: empty_project_def)

subsection \<open>Line numbers of file-level findings\<close>







section \<open>Severities and the grouping step\<close>

lemma per_file_valid:
  "f \<in> set (fst (scan_shared_preferences_usage fs p)) \<Longrightarrow> valid_severity f"
  "f \<in> set (fst (scan_file_storage fs p)) \<Longrightarrow> valid_severity f"
  "f \<in> set (fst (scan_database_security fs p)) \<Longrightarrow> valid_severity f"
  "f \<in> set (fst (scan_http_usage fs p)) \<Longrightarrow> valid_severity f"
  "f \<in> set (fst (check_certificate_pinning fs p)) \<Longrightarrow> valid_severity f"
  by (auto simp: scan_shared_preferences_usage_def scan_file_storage_def
        scan_database_security_def scan_http_usage_def check_certificate_pinning_def
      dest!: try_scan_emit prefs_emit file_storage_emit database_emit http_emit pinning_emit)

text \<open>
  Claim C9.  Every finding that a scanning function emits carries the field \<open>severity\<close>, and
  the value of the field is one of CRITICAL, HIGH, MEDIUM and LOW.  So the grouping loop of
  the reports, which indexes \<open>by_severity\<close> with the severity it reads from each finding,
  completes on the findings of every scan.
\<close>

theorem C9_valid_severities:
  "(\<forall>f \<in> set (fst (scan_file fs p)). valid_severity f)
   \<and> (\<forall>f \<in> set (fst (scan_shared_preferences_usage fs p)). valid_severity f)
   \<and> (\<forall>f \<in> set (fst (scan_file_storage fs p)). valid_severity f)
   \<and> (\<forall>f \<in> set (fst (scan_database_security fs p)). valid_severity f)
   \<and> (\<forall>f \<in> set (fst (scan_backup_configuration fs root)). valid_severity f)
   \<and> (\<forall>f \<in> set (fst (scan_http_usage fs p)). valid_severity f)
   \<and> (\<forall>f \<in> set (fst (check_certificate_pinning fs p)). valid_severity f)
   \<and> (\<forall>f \<in> set (fst (check_android_network_security fs root)). valid_severity f)
   \<and> (\<forall>f \<in> set (fst (check_ios_ats_configuration fs root)). valid_severity f)
   \<and> (\<forall>fs'. check_version_constraints pubspec = Inr fs' \<longrightarrow> (\<forall>f \<in> set fs'. valid_severity f))
   \<and> (\<forall>fs'. analyze_outdated_results outdated_data = Inr fs' \<longrightarrow> (\<forall>f \<in> set fs'. valid_severity f))
   \<and> (\<forall>fs'. check_dangerous_packages pubspec = Inr fs' \<longrightarrow> (\<forall>f \<in> set fs'. valid_severity f))
   \<and> (\<forall>f \<in> set (findings (fst (secrets_scan_project fs root))). valid_severity f)
   \<and> (\<forall>f \<in> set (findings (fst (storage_scan_project fs root))). valid_severity f)
   \<and> (\<forall>f \<in> set (findings (fst (network_scan_project fs root))). valid_severity f)
   \<and> (\<forall>all_findings. dependency_findings fs root loaded = Inr all_findings \<longrightarrow>
          (\<forall>f \<in> set all_findings. valid_severity f))
   \<and> (\<forall>f. valid_severity f \<longleftrightarrow>
          map_of f ''severity'' = Some (PStr ''CRITICAL'') \<or> map_of f ''severity'' = Some (PStr ''HIGH'') \<or>
          map_of f ''severity'' = Some (PStr ''MEDIUM'') \<or> map_of f ''severity'' = Some (PStr ''LOW''))
   \<and> (\<forall>fs'. (\<forall>f \<in> set fs'. valid_severity f) \<longrightarrow>
          (\<exists>g. group_by_severity fs' empty_groups = Inr g \<and>
               (\<forall>s. severity_group g s = filter (\<lambda>f. map_of f ''severity'' = Some (PStr s)) fs')))
   \<and> (\<exists>g. group_by_severity (findings (fst (storage_scan_project fs root))) empty_groups = Inr g)
   \<and> (\<exists>g. group_by_severity (findings (fst (network_scan_project fs root))) empty_groups = Inr g)
   \<and> (\<forall>all_findings. dependency_findings fs root loaded = Inr all_findings \<longrightarrow>
          (\<exists>g. group_by_severity all_findings empty_groups = Inr g))"
proof -
  have field: "valid_severity f \<longleftrightarrow>
          map_of f ''severity'' = Some (PStr ''CRITICAL'') \<or> map_of f ''severity'' = Some (PStr ''HIGH'') \<or>
          map_of f ''severity'' = Some (PStr ''MEDIUM'') \<or> map_of f ''severity'' = Some (PStr ''LOW'')" for f
    by (auto simp: valid_severity_def)
  have read: "severity f = PStr s \<longleftrightarrow> map_of f ''severity'' = Some (PStr s)"
    if "valid_severity f" for f s
    using that by (auto simp: valid_severity_def severity_def dict_get_def)
  have grp: "\<exists>g. group_by_severity xs empty_groups = Inr g \<and>
               (\<forall>s. severity_group g s = filter (\<lambda>f. map_of f ''severity'' = Some (PStr s)) xs)"
    if v: "\<forall>f \<in> set xs. valid_severity f" for xs
  proof -
    from v have "\<forall>f \<in> set xs. severity_key f" by (simp add: valid_severity_key)
    from group_by_severity_ok [OF this] obtain g where
      g: "group_by_severity xs empty_groups = Inr g"
      and s: "\<forall>s. severity_group g s = filter (\<lambda>f. severity f = PStr s) xs" by blast
    have "filter (\<lambda>f. severity f = PStr s) xs = filter (\<lambda>f. map_of f ''severity'' = Some (PStr s)) xs"
      for s
      by (rule filter_cong) (use v read in auto)
    with g s show ?thesis by simp
  qed
  have secrets_v: "\<forall>f \<in> set (findings (fst (secrets_scan_project fs root))). valid_severity f"
    using secrets_project_finding [of _ fs root] by blast
  have storage_v: "\<forall>f \<in> set (findings (fst (storage_scan_project fs root))). valid_severity f"
    using storage_project_finding [of _ fs root] by blast
  have network_v: "\<forall>f \<in> set (findings (fst (network_scan_project fs root))). valid_severity f"
    using network_project_finding [of _ fs root] by blast
  have deps_v: "\<forall>f \<in> set all_findings. valid_severity f"
    if "dependency_findings fs root loaded = Inr all_findings" for all_findings
    using dependency_findings_shape [OF that] by blast
  have storage: "\<exists>g. group_by_severity (findings (fst (storage_scan_project fs root))) empty_groups = Inr g"
    using grp [OF storage_v] by blast
  have network: "\<exists>g. group_by_severity (findings (fst (network_scan_project fs root))) empty_groups = Inr g"
    using grp [OF network_v] by blast
  have deps: "\<exists>g. group_by_severity all_findings empty_groups = Inr g"
    if "dependency_findings fs root loaded = Inr all_findings" for all_findings
    using grp [OF deps_v [OF that]] by blast
  have per_file: "(\<forall>f \<in> set (fst (scan_file fs p)). valid_severity f)
   \<and> (\<forall>f \<in> set (fst (scan_shared_preferences_usage fs p)). valid_severity f)
   \<and> (\<forall>f \<in> set (fst (scan_file_storage fs p)). valid_severity f)
   \<and> (\<forall>f \<in> set (fst (scan_database_security fs p)). valid_severity f)
   \<and> (\<forall>f \<in> set (fst (scan_backup_configuration fs root)). valid_severity f)
   \<and> (\<forall>f \<in> set (fst (scan_http_usage fs p)). valid_severity f)
   \<and> (\<forall>f \<in> set (fst (check_certificate_pinning fs p)). valid_severity f)
   \<and> (\<forall>f \<in> set (fst (check_android_network_security fs root)). valid_severity f)
   \<and> (\<forall>f \<in> set (fst (check_ios_ats_configuration fs root)). valid_severity f)"
    using scan_file_finding [of _ fs p] per_file_valid [of _ fs p]
      backup_finding [of _ fs root] android_finding [of _ fs root] ios_finding [of _ fs root]
    by blast
  have checks: "(\<forall>fs'. check_version_constraints pubspec = Inr fs' \<longrightarrow> (\<forall>f \<in> set fs'. valid_severity f))
   \<and> (\<forall>fs'. analyze_outdated_results outdated_data = Inr fs' \<longrightarrow> (\<forall>f \<in> set fs'. valid_severity f))
   \<and> (\<forall>fs'. check_dangerous_packages pubspec = Inr fs' \<longrightarrow> (\<forall>f \<in> set fs'. valid_severity f))"
    using check_version_constraints_shape [of pubspec]
      analyze_outdated_results_shape [of outdated_data]
      check_dangerous_packages_shape [of pubspec]
    by blast
  from per_file checks secrets_v storage_v network_v deps_v field grp storage network deps
  show ?thesis by blast
qed

theorem C9_witness:
  "findings (fst (storage_scan_project sample_project ''/app'')) =
     [backup_not_configured (android_manifest ''/app''), backup_enabled (android_manifest ''/app'')]
   \<and> map_of (backup_not_configured (android_manifest ''/app'')) ''severity'' = Some (PStr ''MEDIUM'')
   \<and> map_of (backup_enabled (android_manifest ''/app'')) ''severity'' = Some (PStr ''HIGH'')
   \<and> valid_severity (backup_not_configured (android_manifest ''/app''))
   \<and> valid_severity (backup_enabled (android_manifest ''/app''))
   \<and> (\<exists>g. group_by_severity
             [backup_not_configured (android_manifest ''/app''), backup_enabled (android_manifest ''/app'')]
             empty_groups = Inr g)"
proof -
  have a: "findings (fst (storage_scan_project sample_project ''/app'')) =
     [backup_not_configured (android_manifest ''/app''), backup_enabled (android_manifest ''/app'')]"
    by code_simp
  have b: "fst (scan_backup_configuration sample_project ''/app'') =
     [backup_not_configured (android_manifest ''/app''), backup_enabled (android_manifest ''/app'')]"
    by code_simp
  have m: "map_of (backup_not_configured (android_manifest ''/app'')) ''severity'' = Some (PStr ''MEDIUM'')"
    "map_of (backup_enabled (android_manifest ''/app'')) ''severity'' = Some (PStr ''HIGH'')"
    by (simp_all add: backup_not_configured_def backup_enabled_def)
  from C9_valid_severities [of sample_project "''/app/lib/a.dart''" "''/app''" "[]" PNone PNone] a b m
  show ?thesis by simp
qed

section \<open>Unreadable files\<close>

lemma concat_map_filter:
  "(\<And>x. x \<in> set xs \<Longrightarrow> \<not> P x \<Longrightarrow> f x = []) \<Longrightarrow>
   concat (map f xs) = concat (map f (filter P xs))"
  by (induction xs) auto

lemma unreadable_per_file:
  assumes "fs_read_ignore fs p = Inl e"
  shows "scan_file fs p = ([], [error_line p e])"
    and "scan_shared_preferences_usage fs p = ([], [error_line p e])"
    and "scan_file_storage fs p = ([], [error_line p e])"
    and "scan_database_security fs p = ([], [error_line p e])"
    and "scan_http_usage fs p = ([], [error_line p e])"
    and "check_certificate_pinning fs p = ([], [error_line p e])"
  by (simp_all add: scan_file_def scan_shared_preferences_usage_def scan_file_storage_def
      scan_database_security_def scan_http_usage_def check_certificate_pinning_def
      assms try_scan_unreadable)

lemma unreadable_no_findings:
  assumes "isl (fs_read_ignore fs p)"
  shows "fst (scan_file fs p) = []" and "fst (storage_scan_file fs p) = []"
    and "fst (network_scan_file fs p) = []"
proof -
  from assms obtain e where e: "fs_read_ignore fs p = Inl e"
    by (cases "fs_read_ignore fs p") auto
  show "fst (scan_file fs p) = []" "fst (storage_scan_file fs p) = []"
    "fst (network_scan_file fs p) = []"
    by (simp_all add: unreadable_per_file [OF e] storage_scan_file_def network_scan_file_def)
qed

lemma storage_scan_file_parts:
  "storage_scan_file fs q =
     (fst (scan_shared_preferences_usage fs q) @ fst (scan_file_storage fs q) @
        fst (scan_database_security fs q),
      snd (scan_shared_preferences_usage fs q) @ snd (scan_file_storage fs q) @
        snd (scan_database_security fs q))"
  by (simp add: storage_scan_file_def Let_def)

lemma network_scan_file_parts:
  "network_scan_file fs q =
     (fst (scan_http_usage fs q) @ fst (check_certificate_pinning fs q),
      snd (scan_http_usage fs q) @ snd (check_certificate_pinning fs q))"
  by (simp add: network_scan_file_def Let_def)

text \<open>
  Claim C4.  When reading a file raises, each per-file scanning function catches the
  exception, prints one line that names the file and the cause, and returns no finding.  A
  project scan completes whatever the files are: it counts every file, its findings are those
  that the per-file functions return on the readable files, in the order of the files
  (followed by those of the project-level checks), its output is the output of the per-file
  functions on every file, and the error line of each unreadable file is in it.
\<close>

theorem C4_unreadable_file:
  "(fs_read_ignore fs p = Inl e \<longrightarrow>
      scan_file fs p = ([], [error_line p e]) \<and>
      scan_shared_preferences_usage fs p = ([], [error_line p e]) \<and>
      scan_file_storage fs p = ([], [error_line p e]) \<and>
      scan_database_security fs p = ([], [error_line p e]) \<and>
      scan_http_usage fs p = ([], [error_line p e]) \<and>
      check_certificate_pinning fs p = ([], [error_line p e]))
   \<and> error_line p e = ''Error scanning '' @ p @ '': '' @ str_exn e
   \<and> findings (fst (secrets_scan_project fs root)) =
       concat (map (\<lambda>q. fst (scan_file fs q))
                 (filter (\<lambda>q. \<not> isl (fs_read_ignore fs q)) (secrets_files_to_scan fs root)))
   \<and> total_files_scanned (fst (secrets_scan_project fs root)) =
       length (secrets_files_to_scan fs root)
   \<and> total_findings (fst (secrets_scan_project fs root)) =
       length (findings (fst (secrets_scan_project fs root)))
   \<and> snd (secrets_scan_project fs root) =
       concat (map (\<lambda>q. snd (scan_file fs q)) (secrets_files_to_scan fs root))
   \<and> (p \<in> set (secrets_files_to_scan fs root) \<and> fs_read_ignore fs p = Inl e \<longrightarrow>
       error_line p e \<in> set (snd (secrets_scan_project fs root)))
   \<and> findings (fst (storage_scan_project fs root)) =
       concat (map (\<lambda>q. fst (scan_shared_preferences_usage fs q) @ fst (scan_file_storage fs q) @
                          fst (scan_database_security fs q))
                 (filter (\<lambda>q. \<not> isl (fs_read_ignore fs q)) (fs_glob fs root ''lib/**/*.dart''))) @
       fst (scan_backup_configuration fs root)
   \<and> total_files_scanned (fst (storage_scan_project fs root)) =
       length (fs_glob fs root ''lib/**/*.dart'')
   \<and> total_findings (fst (storage_scan_project fs root)) =
       length (findings (fst (storage_scan_project fs root)))
   \<and> snd (storage_scan_project fs root) =
       concat (map (\<lambda>q. snd (scan_shared_preferences_usage fs q) @ snd (scan_file_storage fs q) @
                          snd (scan_database_security fs q))
                 (fs_glob fs root ''lib/**/*.dart'')) @
       snd (scan_backup_configuration fs root)
   \<and> (p \<in> set (fs_glob fs root ''lib/**/*.dart'') \<and> fs_read_ignore fs p = Inl e \<longrightarrow>
       error_line p e \<in> set (snd (storage_scan_project fs root)))
   \<and> findings (fst (network_scan_project fs root)) =
       concat (map (\<lambda>q. fst (scan_http_usage fs q) @ fst (check_certificate_pinning fs q))
                 (filter (\<lambda>q. \<not> isl (fs_read_ignore fs q)) (fs_glob fs root ''lib/**/*.dart''))) @
       fst (check_android_network_security fs root) @ fst (check_ios_ats_configuration fs root)
   \<and> total_files_scanned (fst (network_scan_project fs root)) =
       length (fs_glob fs root ''lib/**/*.dart'')
   \<and> total_findings (fst (network_scan_project fs root)) =
       length (findings (fst (network_scan_project fs root)))
   \<and> snd (network_scan_project fs root) =
       concat (map (\<lambda>q. snd (scan_http_usage fs q) @ snd (check_certificate_pinning fs q))
                 (fs_glob fs root ''lib/**/*.dart'')) @
       snd (check_android_network_security fs root) @ snd (check_ios_ats_configuration fs root)
   \<and> (p \<in> set (fs_glob fs root ''lib/**/*.dart'') \<and> fs_read_ignore fs p = Inl e \<longrightarrow>
       error_line p e \<in> set (snd (network_scan_project fs root)))"
proof -
  let ?dart = "fs_glob fs root ''lib/**/*.dart''"
  let ?readable = "\<lambda>q. \<not> isl (fs_read_ignore fs q)"
  have secrets: "findings (fst (secrets_scan_project fs root)) =
       concat (map (\<lambda>q. fst (scan_file fs q)) (filter ?readable (secrets_files_to_scan fs root)))"
    using concat_map_filter [of "secrets_files_to_scan fs root" ?readable "\<lambda>q. fst (scan_file fs q)"]
    by (simp add: secrets_scan_project_def Let_def comp_def unreadable_no_findings)
  have storage: "findings (fst (storage_scan_project fs root)) =
       concat (map (\<lambda>q. fst (scan_shared_preferences_usage fs q) @ fst (scan_file_storage fs q) @
                          fst (scan_database_security fs q)) (filter ?readable ?dart)) @
       fst (scan_backup_configuration fs root)"
  proof -
    have "findings (fst (storage_scan_project fs root)) =
       concat (map (\<lambda>q. fst (storage_scan_file fs q)) (filter ?readable ?dart)) @
       fst (scan_backup_configuration fs root)"
      using concat_map_filter [of ?dart ?readable "\<lambda>q. fst (storage_scan_file fs q)"]
      by (simp add: storage_scan_project_def Let_def comp_def unreadable_no_findings)
    then show ?thesis by (simp add: storage_scan_file_parts)
  qed
  have network: "findings (fst (network_scan_project fs root)) =
       concat (map (\<lambda>q. fst (scan_http_usage fs q) @ fst (check_certificate_pinning fs q))
                 (filter ?readable ?dart)) @
       fst (check_android_network_security fs root) @ fst (check_ios_ats_configuration fs root)"
  proof -
    have "findings (fst (network_scan_project fs root)) =
       concat (map (\<lambda>q. fst (network_scan_file fs q)) (filter ?readable ?dart)) @
       fst (check_android_network_security fs root) @ fst (check_ios_ats_configuration fs root)"
      using concat_map_filter [of ?dart ?readable "\<lambda>q. fst (network_scan_file fs q)"]
      by (simp add: network_scan_project_def Let_def comp_def unreadable_no_findings)
    then show ?thesis by (simp add: network_scan_file_parts)
  qed
  have counts: "total_files_scanned (fst (secrets_scan_project fs root)) =
       length (secrets_files_to_scan fs root)"
    "total_files_scanned (fst (storage_scan_project fs root)) = length ?dart"
    "total_files_scanned (fst (network_scan_project fs root)) = length ?dart"
    "total_findings (fst (secrets_scan_project fs root)) =
       length (findings (fst (secrets_scan_project fs root)))"
    "total_findings (fst (storage_scan_project fs root)) =
       length (findings (fst (storage_scan_project fs root)))"
    "total_findings (fst (network_scan_project fs root)) =
       length (findings (fst (network_scan_project fs root)))"
    by (simp_all add: secrets_scan_project_def storage_scan_project_def network_scan_project_def
        Let_def)
  have out_secrets: "snd (secrets_scan_project fs root) =
       concat (map (\<lambda>q. snd (scan_file fs q)) (secrets_files_to_scan fs root))"
    by (simp add: secrets_scan_project_def Let_def comp_def)
  have out_storage: "snd (storage_scan_project fs root) =
       concat (map (\<lambda>q. snd (scan_shared_preferences_usage fs q) @ snd (scan_file_storage fs q) @
                          snd (scan_database_security fs q)) ?dart) @
       snd (scan_backup_configuration fs root)"
    by (simp add: storage_scan_project_def Let_def comp_def storage_scan_file_parts)
  have out_network: "snd (network_scan_project fs root) =
       concat (map (\<lambda>q. snd (scan_http_usage fs q) @ snd (check_certificate_pinning fs q)) ?dart) @
       snd (check_android_network_security fs root) @ snd (check_ios_ats_configuration fs root)"
    by (simp add: network_scan_project_def Let_def comp_def network_scan_file_parts)
  have logged_secrets: "error_line p e \<in> set (snd (secrets_scan_project fs root))"
    if "p \<in> set (secrets_files_to_scan fs root)" and "fs_read_ignore fs p = Inl e"
  proof -
    from that(2) have "error_line p e \<in> set (snd (scan_file fs p))"
      by (simp add: unreadable_per_file)
    with that(1) have "\<exists>q \<in> set (secrets_files_to_scan fs root).
        error_line p e \<in> set (snd (scan_file fs q))"
      by blast
    then show ?thesis by (simp add: out_secrets)
  qed
  have logged_storage: "error_line p e \<in> set (snd (storage_scan_project fs root))"
    if "p \<in> set ?dart" and "fs_read_ignore fs p = Inl e"
  proof -
    from that(2) have "error_line p e \<in> set (snd (scan_shared_preferences_usage fs p))"
      by (simp add: unreadable_per_file)
    with that(1) have "\<exists>q \<in> set ?dart.
        error_line p e \<in> set (snd (scan_shared_preferences_usage fs q))"
      by blast
    then show ?thesis by (simp add: out_storage) blast
  qed
  have logged_network: "error_line p e \<in> set (snd (network_scan_project fs root))"
    if "p \<in> set ?dart" and "fs_read_ignore fs p = Inl e"
  proof -
    from that(2) have "error_line p e \<in> set (snd (scan_http_usage fs p))"
      by (simp add: unreadable_per_file)
    with that(1) have "\<exists>q \<in> set ?dart. error_line p e \<in> set (snd (scan_http_usage fs q))"
      by blast
    then show ?thesis by (simp add: out_network) blast
  qed
  have per_file: "fs_read_ignore fs p = Inl e \<longrightarrow>
      scan_file fs p = ([], [error_line p e]) \<and>
      scan_shared_preferences_usage fs p = ([], [error_line p e]) \<and>
      scan_file_storage fs p = ([], [error_line p e]) \<and>
      scan_database_security fs p = ([], [error_line p e]) \<and>
      scan_http_usage fs p = ([], [error_line p e]) \<and>
      check_certificate_pinning fs p = ([], [error_line p e])"
    using unreadable_per_file [of fs p e] by blast
  have line: "error_line p e = ''Error scanning '' @ p @ '': '' @ str_exn e"
    by (simp add: error_line_def)
  from per_file line secrets counts out_secrets logged_secrets storage out_storage logged_storage
    network out_network logged_network
  show ?thesis by blast
qed

theorem C4_witness:
  "fs_read_ignore sample_project ''/app/lib/locked.dart'' = Inl (OSError ''Permission denied'')
   \<and> secrets_files_to_scan sample_project ''/app'' = [''/app/lib/locked.dart'', ''/app/lib/a.dart'']
   \<and> scan_file sample_project ''/app/lib/locked.dart'' =
       ([], [''Error scanning /app/lib/locked.dart: Permission denied''])
   \<and> findings (fst (secrets_scan_project sample_project ''/app'')) =
       fst (scan_file sample_project ''/app/lib/a.dart'')
   \<and> length (fst (scan_file sample_project ''/app/lib/a.dart'')) = 1
   \<and> total_files_scanned (fst (secrets_scan_project sample_project ''/app'')) = 2
   \<and> fs_read_ignore io_project ''/app/lib/locked.dart'' = Inl (OSError ''Permission denied'')
   \<and> fs_glob io_project ''/app'' ''lib/**/*.dart'' = [''/app/lib/locked.dart'', ''/app/lib/io.dart'']
   \<and> total_files_scanned (fst (storage_scan_project io_project ''/app'')) = 2
   \<and> map (\<lambda>f. (map_of f ''file'', map_of f ''line'', map_of f ''issue''))
         (findings (fst (storage_scan_project io_project ''/app''))) =
       [(Some (PStr ''/app/lib/io.dart''), Some (PInt 1),
         Some (PStr ''Potentially unencrypted stream write''))]
   \<and> snd (storage_scan_project io_project ''/app'') =
       [''Error scanning /app/lib/locked.dart: Permission denied'',
        ''Error scanning /app/lib/locked.dart: Permission denied'',
        ''Error scanning /app/lib/locked.dart: Permission denied'']
   \<and> total_files_scanned (fst (network_scan_project io_project ''/app'')) = 2
   \<and> map (\<lambda>f. (map_of f ''file'', map_of f ''line'', map_of f ''issue''))
         (findings (fst (network_scan_project io_project ''/app''))) =
       [(Some (PStr ''/app/lib/io.dart''), Some (PInt 2), Some (PStr ''HTTP URL (non-localhost)'')),
        (Some (PStr ''android/app/src/main/res/xml/network_security_config.xml''), Some (PInt 0),
         Some (PStr ''Network security configuration not found''))]
   \<and> snd (network_scan_project io_project ''/app'') =
       [''Error scanning /app/lib/locked.dart: Permission denied'',
        ''Error scanning /app/lib/locked.dart: Permission denied'']
   \<and> ''Error scanning /app/lib/locked.dart: Permission denied'' \<in>
       set (snd (storage_scan_project io_project ''/app'')) \<inter>
       set (snd (network_scan_project io_project ''/app''))"
proof -
  have rd: "fs_read_ignore sample_project ''/app/lib/locked.dart'' = Inl (OSError ''Permission denied'')"
    "fs_read_ignore sample_project ''/app/lib/a.dart'' = Inr sample_dart"
    by (simp_all add: sample_project_def)
  have files: "secrets_files_to_scan sample_project ''/app'' = [''/app/lib/locked.dart'', ''/app/lib/a.dart'']"
    by (simp add: secrets_files_to_scan_def sample_project_def)
  have one: "length (fst (scan_file sample_project ''/app/lib/a.dart'')) = 1"
    by code_simp
  have io_rd: "fs_read_ignore io_project ''/app/lib/locked.dart'' = Inl (OSError ''Permission denied'')"
    by (simp add: io_project_def)
  have io_files: "fs_glob io_project ''/app'' ''lib/**/*.dart'' =
      [''/app/lib/locked.dart'', ''/app/lib/io.dart'']"
    by (simp add: io_project_def)
  have line: "error_line ''/app/lib/locked.dart'' (OSError ''Permission denied'') =
      ''Error scanning /app/lib/locked.dart: Permission denied''"
    by code_simp
  have storage: "map (\<lambda>f. (map_of f ''file'', map_of f ''line'', map_of f ''issue''))
         (findings (fst (storage_scan_project io_project ''/app''))) =
       [(Some (PStr ''/app/lib/io.dart''), Some (PInt 1),
         Some (PStr ''Potentially unencrypted stream write''))]"
    by code_simp
  have storage_out: "snd (storage_scan_project io_project ''/app'') =
       [''Error scanning /app/lib/locked.dart: Permission denied'',
        ''Error scanning /app/lib/locked.dart: Permission denied'',
        ''Error scanning /app/lib/locked.dart: Permission denied'']"
    by code_simp
  have network: "map (\<lambda>f. (map_of f ''file'', map_of f ''line'', map_of f ''issue''))
         (findings (fst (network_scan_project io_project ''/app''))) =
       [(Some (PStr ''/app/lib/io.dart''), Some (PInt 2), Some (PStr ''HTTP URL (non-localhost)'')),
        (Some (PStr ''android/app/src/main/res/xml/network_security_config.xml''), Some (PInt 0),
         Some (PStr ''Network security configuration not found''))]"
    by code_simp
  have network_out: "snd (network_scan_project io_project ''/app'') =
       [''Error scanning /app/lib/locked.dart: Permission denied'',
        ''Error scanning /app/lib/locked.dart: Permission denied'']"
    by code_simp
  note sample = C4_unreadable_file [of sample_project "''/app/lib/locked.dart''"
      "OSError ''Permission denied''" "''/app''"]
  note io = C4_unreadable_file [of io_project "''/app/lib/locked.dart''"
      "OSError ''Permission denied''" "''/app''"]
  from sample rd files one
  have a: "scan_file sample_project ''/app/lib/locked.dart'' =
       ([], [''Error scanning /app/lib/locked.dart: Permission denied''])
   \<and> findings (fst (secrets_scan_project sample_project ''/app'')) =
       fst (scan_file sample_project ''/app/lib/a.dart'')
   \<and> total_files_scanned (fst (secrets_scan_project sample_project ''/app'')) = 2"
    by simp
  from io io_rd io_files line
  have b: "total_files_scanned (fst (storage_scan_project io_project ''/app'')) = 2
    \<and> total_files_scanned (fst (network_scan_project io_project ''/app'')) = 2
    \<and> ''Error scanning /app/lib/locked.dart: Permission denied'' \<in>
         set (snd (storage_scan_project io_project ''/app''))
    \<and> ''Error scanning /app/lib/locked.dart: Permission denied'' \<in>
         set (snd (network_scan_project io_project ''/app''))"
    by simp
  from a b rd files one io_rd io_files storage storage_out network network_out
  show ?thesis by simp
qed

section \<open>Comment lines\<close>


















section \<open>False-positive suppression in the secrets scanner\<close>

text \<open>
  A literal of the deny list is found in a lowered value exactly when the lowered literal is a
  substring of it; the pattern \<open>your[_-]api[_-]key\<close> is found in every value that holds one of
  its four spellings.
\<close>

lemma rx_match_lit:
  "rx_match True (lit t) (s, g) =
     (if startswith (lower s) (lower t) then [(drop (length t) s, g)] else [])"
proof (induction t arbitrary: s rule: lit.induct)
  case 1
  then show ?case by (simp add: startswith_def lower_def)
next
  case (2 c)
  then show ?case by (cases s) (auto simp: startswith_def lower_def)
next
  case (3 c c' cs)
  show ?case
  proof (cases s)
    case Nil
    then show ?thesis by (simp add: startswith_def lower_def)
  next
    case (Cons x xs)
    with "3.IH" [of xs] show ?thesis
      by (auto simp: startswith_def lower_def)
  qed
qed

lemma match_here_lit:
  "match_here True (lit t) s =
     (if startswith (lower s) (lower t) then Some (length s - length (drop (length t) s), None)
      else None)"
  by (simp add: match_here_def rx_match_lit)

lemma re_search_lit:
  "re_search True (lit t) s \<noteq> None \<longleftrightarrow> str_in (lower t) (lower s)"
proof (induction s)
  case Nil
  show ?case by (simp add: match_here_lit startswith_def lower_def)
next
  case (Cons c cs)
  then show ?case by (simp add: match_here_lit lower_def)
qed

lemma str_in_lower: "str_in t s \<Longrightarrow> str_in (lower t) (lower s)"
  by (auto simp: str_in_iff lower_def) (metis map_append)

lemma literal_token_suppressed:
  assumes "lit T \<in> set FALSE_POSITIVE_PATTERNS" and "str_in (lower T) (lower v)"
    and "lower (lower T) = lower T"
  shows "is_false_positive v"
proof -
  from str_in_lower [OF assms(2)] assms(3) have "str_in (lower T) (lower (lower v))" by simp
  then have "re_search True (lit T) (lower v) \<noteq> None"
    using re_search_lit [of T "lower v"] by blast
  with assms(1) show ?thesis by (auto simp: is_false_positive_def Let_def)
qed

lemma lower_tokens:
  "lower ''example.com'' = ''example.com''" "lower ''FIXME'' = ''fixme''"
  "lower ''TODO'' = ''todo''" "lower ''dummy'' = ''dummy''" "lower ''test'' = ''test''"
  "lower ''sample'' = ''sample''" "lower ''placeholder'' = ''placeholder''"
  "lower ''fixme'' = ''fixme''" "lower ''todo'' = ''todo''"
  by code_simp+

lemma literal_patterns:
  "lit ''example.com'' \<in> set FALSE_POSITIVE_PATTERNS"
  "lit ''FIXME'' \<in> set FALSE_POSITIVE_PATTERNS" "lit ''TODO'' \<in> set FALSE_POSITIVE_PATTERNS"
  "lit ''dummy'' \<in> set FALSE_POSITIVE_PATTERNS" "lit ''test'' \<in> set FALSE_POSITIVE_PATTERNS"
  "lit ''sample'' \<in> set FALSE_POSITIVE_PATTERNS"
  "lit ''placeholder'' \<in> set FALSE_POSITIVE_PATTERNS"
  by (simp_all only: FALSE_POSITIVE_PATTERNS_def list.set insert_iff simp_thms)

lemma placeholder_each:
  "str_in ''example.com'' (lower v) \<Longrightarrow> is_false_positive v"
  "str_in ''fixme'' (lower v) \<Longrightarrow> is_false_positive v"
  "str_in ''todo'' (lower v) \<Longrightarrow> is_false_positive v"
  "str_in ''dummy'' (lower v) \<Longrightarrow> is_false_positive v"
  "str_in ''test'' (lower v) \<Longrightarrow> is_false_positive v"
  "str_in ''sample'' (lower v) \<Longrightarrow> is_false_positive v"
  "str_in ''placeholder'' (lower v) \<Longrightarrow> is_false_positive v"
  using literal_token_suppressed [OF literal_patterns(1), of v]
    literal_token_suppressed [OF literal_patterns(2), of v]
    literal_token_suppressed [OF literal_patterns(3), of v]
    literal_token_suppressed [OF literal_patterns(4), of v]
    literal_token_suppressed [OF literal_patterns(5), of v]
    literal_token_suppressed [OF literal_patterns(6), of v]
    literal_token_suppressed [OF literal_patterns(7), of v]
  by (simp_all only: lower_tokens simp_thms)

lemma suppressed_match:
  "match_value r mt = Some v \<Longrightarrow> is_false_positive v \<Longrightarrow>
   secret_match_events p n line r t mt = []"
  by (simp add: secret_match_events_def)

lemma suppressed_line:
  assumes "\<forall>rule \<in> set SECRET_PATTERNS. \<forall>mt \<in> set (re_finditer True (fst rule) line).
             (case match_value (fst rule) mt of None \<Rightarrow> False | Some v \<Rightarrow> is_false_positive v)"
  shows "Emit f \<notin> set (secret_line_events p (n, line))"
proof
  assume "Emit f \<in> set (secret_line_events p (n, line))"
  then obtain rule mt where rule: "rule \<in> set SECRET_PATTERNS"
    and mt: "mt \<in> set (re_finditer True (fst rule) line)"
    and em: "Emit f \<in> set (secret_match_events p n line (fst rule) (snd rule) mt)"
    by (auto simp: secret_line_events_def secret_rule_events_def split: if_splits)
  from secret_match_emit [OF em] obtain v where
    "match_value (fst rule) mt = Some v" "\<not> is_false_positive v" by blast
  with assms rule mt show False by force
qed

lemma scan_file_sound:
  assumes "f \<in> set (fst (scan_file fs p))"
  shows "\<exists>n line r t mt v. (r, t) \<in> set SECRET_PATTERNS \<and> mt \<in> set (re_finditer True r line) \<and>
           match_value r mt = Some v \<and> \<not> is_false_positive v \<and>
           f = [(''file'', PStr p), (''line'', PInt (int n)), (''type'', PStr t),
                (''pattern'', PStr (strip line)), (''severity'', PStr ''HIGH'')]"
proof -
  from assms obtain content where "Emit f \<in> set (scan_file_events p content)"
    by (auto simp: scan_file_def dest!: try_scan_emit)
  then obtain n line rule mt where rule: "rule \<in> set SECRET_PATTERNS"
    and mt: "mt \<in> set (re_finditer True (fst rule) line)"
    and em: "Emit f \<in> set (secret_match_events p n line (fst rule) (snd rule) mt)"
    by (auto simp: scan_file_events_def secret_line_events_def secret_rule_events_def
        split: if_splits)
  from secret_match_emit [OF em] rule mt show ?thesis
    by (metis prod.collapse)
qed

lemma re_search_suffix:
  "match_here ic r s \<noteq> None \<Longrightarrow> re_search ic r (pre @ s) \<noteq> None"
proof (induction pre)
  case Nil
  then show ?case by (cases s) (auto split: option.splits)
next
  case (Cons c cs)
  then show ?case by (auto split: option.splits)
qed

lemma your_api_key_here:
  assumes "a = CHR ''-'' \<or> a = CHR ''_''" and "b = CHR ''-'' \<or> b = CHR ''_''"
  shows "match_here True (cat [lit ''your'', one_sep, lit ''api'', one_sep, lit ''key''])
           (''your'' @ a # ''api'' @ b # ''key'' @ post) \<noteq> None"
proof -
  have chars: "py_lower CHR ''-'' = CHR ''-''" "py_lower CHR ''_'' = CHR ''_''"
    "lower ''your'' = ''your''" "lower ''api'' = ''api''" "lower ''key'' = ''key''"
    by code_simp+
  have sep: "rx_match True one_sep (x # xs, g) = [(xs, g)]" if "x = CHR ''-'' \<or> x = CHR ''_''"
    for x xs g
    using that chars(1,2) by (auto simp: one_sep_def in_items_def)
  have "rx_match True (cat [lit ''your'', one_sep, lit ''api'', one_sep, lit ''key''])
          (''your'' @ a # ''api'' @ b # ''key'' @ post, None) = [(post, None)]"
    using chars(3-5) sep [OF assms(1)] sep [OF assms(2)]
    by (simp add: rx_match_lit startswith_def lower_def)
  then show ?thesis by (simp add: match_here_def)
qed

lemma your_api_key_suppressed:
  assumes "a = CHR ''-'' \<or> a = CHR ''_''" and "b = CHR ''-'' \<or> b = CHR ''_''"
    and "str_in (''your'' @ a # ''api'' @ b # ''key'') (lower v)"
  shows "is_false_positive v"
proof -
  from assms(3) obtain pre post where "lower v = pre @ (''your'' @ a # ''api'' @ b # ''key'') @ post"
    by (auto simp: str_in_iff)
  then have eq: "lower v = pre @ (''your'' @ a # ''api'' @ b # ''key'' @ post)" by simp
  have "re_search True (cat [lit ''your'', one_sep, lit ''api'', one_sep, lit ''key'']) (lower v) \<noteq> None"
    unfolding eq by (rule re_search_suffix) (rule your_api_key_here [OF assms(1,2)])
  moreover have "cat [lit ''your'', one_sep, lit ''api'', one_sep, lit ''key'']
                   \<in> set FALSE_POSITIVE_PATTERNS"
    by (simp only: FALSE_POSITIVE_PATTERNS_def list.set insert_iff simp_thms)
  ultimately show ?thesis unfolding is_false_positive_def Let_def by blast
qed

lemma your_api_key_each:
  "str_in ''your-api-key'' (lower v) \<Longrightarrow> is_false_positive v"
  "str_in ''your_api_key'' (lower v) \<Longrightarrow> is_false_positive v"
  "str_in ''your-api_key'' (lower v) \<Longrightarrow> is_false_positive v"
  "str_in ''your_api-key'' (lower v) \<Longrightarrow> is_false_positive v"
  using your_api_key_suppressed [of "CHR ''-''" "CHR ''-''" v]
    your_api_key_suppressed [of "CHR ''_''" "CHR ''_''" v]
    your_api_key_suppressed [of "CHR ''-''" "CHR ''_''" v]
    your_api_key_suppressed [of "CHR ''_''" "CHR ''-''" v]
  by (simp_all only: append.simps simp_thms)

lemma denylist_tokens:
  "\<forall>token \<in> set [''example.com'', ''fixme'', ''todo'', ''dummy'', ''test'', ''sample'',
                   ''placeholder'', ''your-api-key'', ''your_api_key'', ''your-api_key'',
                   ''your_api-key''].
     str_in token (lower v) \<longrightarrow> is_false_positive v"
  by (simp only: list.set ball_simps bex_simps simp_thms imp_disjL)
    (intro conjI impI; erule placeholder_each your_api_key_each)

lemma your_api_key_value: "is_false_positive ''your-api-key''"
  by code_simp

text \<open>
  Claim C2.  In the secrets scanner, a match of a configured secret pattern whose captured
  value is a false positive contributes no finding: the events of that match are empty.  A
  value is a false positive as soon as its lowered form contains one of the literal tokens of
  the deny list (\<open>example.com\<close>, \<open>fixme\<close>, \<open>todo\<close>, \<open>dummy\<close>, \<open>test\<close>, \<open>sample\<close>,
  \<open>placeholder\<close>) or one of the spellings of \<open>your[_-]api[_-]key\<close>, whatever the case of the
  letters in the value.  In particular the value \<open>your-api-key\<close> is always suppressed.
  Conversely every finding that \<open>scan_file\<close> returns comes from a match whose value is not a
  false positive.
\<close>

theorem C2_false_positive_suppression:
  "(match_value r mt = Some v \<and> is_false_positive v \<longrightarrow>
      secret_match_events p n line r t mt = [])
   \<and> (\<forall>token \<in> set [''example.com'', ''fixme'', ''todo'', ''dummy'', ''test'', ''sample'',
                        ''placeholder'', ''your-api-key'', ''your_api_key'', ''your-api_key'',
                        ''your_api-key''].
          str_in token (lower v) \<longrightarrow> is_false_positive v)
   \<and> is_false_positive ''your-api-key''
   \<and> (match_value r mt = Some ''your-api-key'' \<longrightarrow> secret_match_events p n line r t mt = [])
   \<and> (\<forall>f \<in> set (fst (scan_file fs p)).
          \<exists>k l r' t' mt' v'. (r', t') \<in> set SECRET_PATTERNS \<and> mt' \<in> set (re_finditer True r' l) \<and>
            match_value r' mt' = Some v' \<and> \<not> is_false_positive v' \<and>
            f = [(''file'', PStr p), (''line'', PInt (int k)), (''type'', PStr t'),
                 (''pattern'', PStr (strip l)), (''severity'', PStr ''HIGH'')])"
proof (intro conjI)
  show "match_value r mt = Some v \<and> is_false_positive v \<longrightarrow>
      secret_match_events p n line r t mt = []"
  proof (intro impI, elim conjE)
    assume "match_value r mt = Some v" and "is_false_positive v"
    then show "secret_match_events p n line r t mt = []" by (rule suppressed_match)
  qed
next
  show "\<forall>token \<in> set [''example.com'', ''fixme'', ''todo'', ''dummy'', ''test'', ''sample'',
                        ''placeholder'', ''your-api-key'', ''your_api_key'', ''your-api_key'',
                        ''your_api-key''].
          str_in token (lower v) \<longrightarrow> is_false_positive v"
    by (rule denylist_tokens)
next
  show "is_false_positive ''your-api-key''" by (rule your_api_key_value)
next
  show "match_value r mt = Some ''your-api-key'' \<longrightarrow> secret_match_events p n line r t mt = []"
  proof
    assume "match_value r mt = Some ''your-api-key''"
    then show "secret_match_events p n line r t mt = []"
      using your_api_key_value by (rule suppressed_match)
  qed
next
  show "\<forall>f \<in> set (fst (scan_file fs p)).
          \<exists>k l r' t' mt' v'. (r', t') \<in> set SECRET_PATTERNS \<and> mt' \<in> set (re_finditer True r' l) \<and>
            match_value r' mt' = Some v' \<and> \<not> is_false_positive v' \<and>
            f = [(''file'', PStr p), (''line'', PInt (int k)), (''type'', PStr t'),
                 (''pattern'', PStr (strip l)), (''severity'', PStr ''HIGH'')]"
  proof
    fix f
    assume "f \<in> set (fst (scan_file fs p))"
    then show "\<exists>k l r' t' mt' v'. (r', t') \<in> set SECRET_PATTERNS \<and> mt' \<in> set (re_finditer True r' l) \<and>
            match_value r' mt' = Some v' \<and> \<not> is_false_positive v' \<and>
            f = [(''file'', PStr p), (''line'', PInt (int k)), (''type'', PStr t'),
                 (''pattern'', PStr (strip l)), (''severity'', PStr ''HIGH'')]"
      by (rule scan_file_sound)
  qed
qed

theorem C2_witness:
  "match_value (fst (SECRET_PATTERNS ! 13))
      (hd (re_finditer True (fst (SECRET_PATTERNS ! 13)) placeholder_line)) = Some ''your-api-key''
   \<and> is_false_positive ''your-api-key''
   \<and> secret_match_events ''/app/lib/a.dart'' 1 placeholder_line (fst (SECRET_PATTERNS ! 13))
         ''Password'' (hd (re_finditer True (fst (SECRET_PATTERNS ! 13)) placeholder_line)) = []
   \<and> fst (scan_file (one_file_project ''/app/lib/a.dart'' placeholder_line) ''/app/lib/a.dart'') = []
   \<and> length (fst (scan_file sample_project ''/app/lib/a.dart'')) = 1"
proof -
  have a: "match_value (fst (SECRET_PATTERNS ! 13))
      (hd (re_finditer True (fst (SECRET_PATTERNS ! 13)) placeholder_line)) = Some ''your-api-key''"
    by code_simp
  have c: "fst (scan_file (one_file_project ''/app/lib/a.dart'' placeholder_line) ''/app/lib/a.dart'') = []"
    by code_simp
  have d: "length (fst (scan_file sample_project ''/app/lib/a.dart'')) = 1"
    by code_simp
  note C2 = C2_false_positive_suppression [of "fst (SECRET_PATTERNS ! 13)"
      "hd (re_finditer True (fst (SECRET_PATTERNS ! 13)) placeholder_line)" "''your-api-key''"
      "''/app/lib/a.dart''" 1 placeholder_line "''Password''" sample_project]
  have b: "is_false_positive ''your-api-key''"
    by (rule C2 [THEN conjunct2, THEN conjunct2, THEN conjunct1])
  have e: "secret_match_events ''/app/lib/a.dart'' 1 placeholder_line (fst (SECRET_PATTERNS ! 13))
         ''Password'' (hd (re_finditer True (fst (SECRET_PATTERNS ! 13)) placeholder_line)) = []"
    by (rule mp [OF C2 [THEN conjunct1] conjI [OF a b]])
  show ?thesis
    by (rule conjI [OF a conjI [OF b conjI [OF e conjI [OF c d]]]])
qed

section \<open>Properties of check_dependencies.py\<close>

lemma map_of_update_fold:
  "distinct (map fst db) \<Longrightarrow>
   map_of (fold (\<lambda>(k, v). AList.update k v) db da) k =
     (case map_of db k of Some v \<Rightarrow> Some v | None \<Rightarrow> map_of da k)"
proof (induction db arbitrary: da)
  case Nil
  then show ?case by simp
next
  case (Cons kv db)
  obtain k' v' where kv: "kv = (k', v')" by (cases kv)
  from Cons.prems have d: "distinct (map fst db)" and nin: "k' \<notin> fst ` set db"
    by (auto simp: kv)
  from nin have none: "map_of db k' = None"
    by (simp add: map_of_eq_None_iff)
  show ?case
    using Cons.IH [OF d, of "AList.update k' v' da"] none
    by (auto simp: kv update_conv' split: option.splits)
qed

lemma distinct_update_fold:
  "distinct (map fst da) \<Longrightarrow> distinct (map fst (fold (\<lambda>(k, v). AList.update k v) db da))"
  by (induction db arbitrary: da) (auto simp: distinct_update)

lemma version_finding_other:
  "fst kv \<noteq> p \<Longrightarrow> filter (\<lambda>f. map_of f ''package'' = Some (PStr p)) (version_finding kv) = []"
  by (cases kv) auto

lemma version_finding_names:
  "f \<in> set (version_finding kv) \<Longrightarrow> map_of f ''package'' = Some (PStr (fst kv))"
  by (cases kv) (auto split: if_splits)

lemma version_findings_absent:
  "p \<notin> fst ` set d \<Longrightarrow>
   filter (\<lambda>f. map_of f ''package'' = Some (PStr p)) (concat (map version_finding d)) = []"
  by (induction d) (auto simp: version_finding_other)

lemma version_findings_any:
  assumes "distinct (map fst d)" and "map_of d p = Some (PStr ''any'')" and "p \<noteq> ''flutter''"
  shows "filter (\<lambda>f. map_of f ''package'' = Some (PStr p)) (concat (map version_finding d)) =
         version_finding (p, PStr ''any'')"
  using assms
proof (induction d)
  case Nil
  then show ?case by simp
next
  case (Cons kv d)
  obtain k v where kv: "kv = (k, v)" by (cases kv)
  show ?case
  proof (cases "k = p")
    case True
    with Cons.prems kv have v: "v = PStr ''any''" and nin: "p \<notin> fst ` set d"
      by auto
    from version_findings_absent [OF nin] show ?thesis
      using True v kv Cons.prems(3) by simp
  next
    case False
    with Cons.prems kv have "map_of d p = Some (PStr ''any'')" and "distinct (map fst d)"
      by auto
    with Cons.IH Cons.prems(3) show ?thesis
      using False kv version_finding_other [of kv p] by simp
  qed
qed

text \<open>
  Claim C10.  The version-constraint check never emits a finding for the package named
  \<open>flutter\<close>: whatever the pubspec declares, no finding of a completed check carries
  \<open>flutter\<close> in its \<open>package\<close> field.
\<close>

theorem C10_flutter_never_reported:
  "check_version_constraints pubspec = Inr fs \<Longrightarrow> f \<in> set fs \<Longrightarrow>
   map_of f ''package'' \<noteq> Some (PStr ''flutter'')"
  by (auto simp: check_version_constraints_def Let_def split: sum.splits prod.splits if_splits)

theorem C10_witness:
  "check_version_constraints
     [(''dependencies'', PDict [(''flutter'', PStr ''any''), (''http'', PStr ''any'')]),
      (''dev_dependencies'', PDict [(''flutter'', PNone)])] =
     Inr [[(''package'', PStr ''http''),
           (''issue'', PStr ''Version constraint set to \"any\"''),
           (''severity'', PStr ''CRITICAL''),
           (''recommendation'', PStr ''Use specific version constraints (e.g., ^1.0.0)'')]]
   \<and> map_of [(''package'', PStr ''http''),
           (''issue'', PStr ''Version constraint set to \"any\"''),
           (''severity'', PStr ''CRITICAL''),
           (''recommendation'', PStr ''Use specific version constraints (e.g., ^1.0.0)'')]
        ''package'' \<noteq> Some (PStr ''flutter'')"
  using C10_flutter_never_reported
    [of "[(''dependencies'', PDict [(''flutter'', PStr ''any''), (''http'', PStr ''any'')]),
      (''dev_dependencies'', PDict [(''flutter'', PNone)])]"
     "[[(''package'', PStr ''http''),
           (''issue'', PStr ''Version constraint set to \"any\"''),
           (''severity'', PStr ''CRITICAL''),
           (''recommendation'', PStr ''Use specific version constraints (e.g., ^1.0.0)'')]]"
      "[(''package'', PStr ''http''),
           (''issue'', PStr ''Version constraint set to \"any\"''),
           (''severity'', PStr ''CRITICAL''),
           (''recommendation'', PStr ''Use specific version constraints (e.g., ^1.0.0)'')]"]
  by (simp add: check_version_constraints_def dict_get_def dict_merge_def)

text \<open>
  Claim C6 as stated fails: a \<open>flutter\<close> entry declared \<open>any\<close> is skipped by the guard at
  the head of the loop, and a regular dependency declared \<open>any\<close> that \<open>dev_dependencies\<close>
  declares again is overwritten by the merge before the loop sees it.
\<close>

theorem C6_counterexample:
  "check_version_constraints [(''dependencies'', PDict [(''flutter'', PStr ''any'')])] = Inr []
   \<and> check_version_constraints
       [(''dependencies'', PDict [(''http'', PStr ''any'')]),
        (''dev_dependencies'', PDict [(''http'', PStr ''^1.0.0'')])] = Inr []"
  by (simp add: check_version_constraints_def dict_get_def dict_merge_def)

text \<open>
  Claim C6, amended.  When the merged dependency table (a \<open>dev_dependencies\<close> entry
  overrides the \<open>dependencies\<close> entry of the same name) maps a package other than
  \<open>flutter\<close> to the exact value \<open>any\<close>, the version-constraint check completes and
  the findings naming that package are exactly one, of severity CRITICAL.
\<close>

theorem C6_any_constraint_amended:
  assumes deps: "dict_get pubspec ''dependencies'' (PDict []) = PDict da"
    and dev: "dict_get pubspec ''dev_dependencies'' (PDict []) = PDict db"
    and dist: "distinct (map fst da)" "distinct (map fst db)"
    and decl: "map_of db p = Some (PStr ''any'') \<or>
               (map_of db p = None \<and> map_of da p = Some (PStr ''any''))"
    and nf: "p \<noteq> ''flutter''"
  shows "\<exists>fs. check_version_constraints pubspec = Inr fs \<and>
           filter (\<lambda>f. map_of f ''package'' = Some (PStr p)) fs =
             [[(''package'', PStr p),
               (''issue'', PStr ''Version constraint set to \"any\"''),
               (''severity'', PStr ''CRITICAL''),
               (''recommendation'', PStr ''Use specific version constraints (e.g., ^1.0.0)'')]]"
proof -
  let ?all = "fold (\<lambda>(k, v). AList.update k v) db da"
  have m: "map_of ?all p = Some (PStr ''any'')"
    using decl by (auto simp: map_of_update_fold [OF dist(2)])
  have d: "distinct (map fst ?all)"
    by (rule distinct_update_fold [OF dist(1)])
  have "check_version_constraints pubspec = Inr (concat (map version_finding ?all))"
    by (simp add: check_version_constraints_def deps dev dict_merge_def)
  moreover have "filter (\<lambda>f. map_of f ''package'' = Some (PStr p)) (concat (map version_finding ?all)) =
      version_finding (p, PStr ''any'')"
    by (rule version_findings_any [OF d m nf])
  ultimately show ?thesis using nf by simp
qed

theorem C6_witness:
  "\<exists>fs. check_version_constraints
      [(''name'', PStr ''app''),
       (''dependencies'', PDict [(''flutter'', PDict [(''sdk'', PStr ''flutter'')]), (''http'', PStr ''any'')]),
       (''dev_dependencies'', PDict [(''lints'', PStr ''^2.0.0'')])] = Inr fs \<and>
     filter (\<lambda>f. map_of f ''package'' = Some (PStr ''http'')) fs =
       [[(''package'', PStr ''http''),
         (''issue'', PStr ''Version constraint set to \"any\"''),
         (''severity'', PStr ''CRITICAL''),
         (''recommendation'', PStr ''Use specific version constraints (e.g., ^1.0.0)'')]]"
  by (rule C6_any_constraint_amended
        [where da = "[(''flutter'', PDict [(''sdk'', PStr ''flutter'')]), (''http'', PStr ''any'')]"
           and db = "[(''lints'', PStr ''^2.0.0'')]"])
     (simp_all add: dict_get_def)

section \<open>The exit status of the four scripts\<close>

text \<open>
  The report of the secrets script reads the keys \<open>type\<close>, \<open>severity\<close>, \<open>file\<close>, \<open>line\<close> and
  \<open>pattern\<close> of each finding; every finding of a scan has them, so printing raises nothing.
\<close>

lemma require_type:
  "require_keys [''severity'', ''type'', ''file'', ''line'', ''pattern''] f = None \<Longrightarrow>
   require_keys [''type''] f = None"
  by (simp split: option.splits)

lemma secrets_print_ok: "secrets_print (findings (fst (secrets_scan_project fs root))) = None"
proof -
  have keys: "require_keys [''severity'', ''type'', ''file'', ''line'', ''pattern''] f = None"
    if "f \<in> set (findings (fst (secrets_scan_project fs root)))" for f
    using secrets_project_finding [OF that] by (rule conjunct2)
  have "first_error
          (map (require_keys [''type'']) (findings (fst (secrets_scan_project fs root))) @
           map (require_keys [''severity'', ''type'', ''file'', ''line'', ''pattern''])
             (findings (fst (secrets_scan_project fs root)))) = None"
    by (rule first_error_none) (use keys require_type in auto)
  then show ?thesis by (simp add: secrets_print_def)
qed

lemma secrets_main_exit:
  assumes "fs_write fs (report_path root ''owasp_m1_secrets_scan.json'') = None"
  shows "secrets_main fs [prog, root] =
           Exit (if 0 < total_findings (fst (secrets_scan_project fs root)) then 1 else 0)"
  using assms secrets_print_ok [of fs root] by (simp add: secrets_main_def Let_def)

lemma storage_main_exit:
  assumes "fs_write fs (report_path root ''owasp_m9_storage_scan.json'') = None"
  shows "storage_main fs [prog, root] =
           Exit (if 0 < total_findings (fst (storage_scan_project fs root)) then 1 else 0)"
proof -
  have "\<forall>f \<in> set (findings (fst (storage_scan_project fs root))).
          valid_severity f \<and> require_keys (issue_keys f) f = None"
    using storage_project_finding [of _ fs root] by blast
  from report_groups_ok [OF this] obtain r where
    "report_groups issue_keys (findings (fst (storage_scan_project fs root))) = Inr r" by blast
  with assms show ?thesis by (simp add: storage_main_def Let_def)
qed

lemma network_main_exit:
  assumes "fs_write fs (report_path root ''owasp_m5_network_scan.json'') = None"
    and "findings (fst (network_scan_project fs root)) \<noteq> []"
  shows "network_main fs [prog, root] =
           Exit (if \<exists>f \<in> set (findings (fst (network_scan_project fs root))). critical_or_high f
                 then 1 else 0)"
proof -
  have "\<forall>f \<in> set (findings (fst (network_scan_project fs root))).
          valid_severity f \<and> require_keys (issue_keys f) f = None"
    using network_project_finding [of _ fs root] by blast
  from report_groups_ok [OF this] assms(2) obtain g where
    r: "report_groups issue_keys (findings (fst (network_scan_project fs root))) = Inr (Some g)"
    and grp: "\<forall>s. severity_group g s =
                filter (\<lambda>f. severity f = PStr s) (findings (fst (network_scan_project fs root)))"
    by blast
  from r assms(1) have "network_main fs [prog, root] = critical_high_exit (Some g)"
    by (simp add: network_main_def Let_def)
  with critical_high_exit_groups [OF grp] show ?thesis by simp
qed

lemma dependencies_main_missing:
  "\<not> fs_exists fs (pubspec_path root) \<Longrightarrow> dependencies_main fs [prog, root] = Exit 1"
  by (simp add: dependencies_main_def load_pubspec_def Let_def)

lemma dependencies_main_exit:
  assumes "fs_exists fs (pubspec_path root)"
    and "fs_load_yaml fs (pubspec_path root) = Inr pubspec"
    and "dependency_findings fs root pubspec = Inr all_findings"
    and "all_findings \<noteq> []"
    and "fs_write fs (report_path root ''owasp_m2_dependencies_scan.json'') = None"
  shows "dependencies_main fs [prog, root] =
           Exit (if \<exists>f \<in> set all_findings. critical_or_high f then 1 else 0)"
proof -
  have "\<forall>f \<in> set all_findings. valid_severity f \<and> require_keys (package_keys f) f = None"
    using dependency_findings_shape [OF assms(3)] by blast
  from report_groups_ok [OF this] assms(4) obtain g where
    r: "report_groups package_keys all_findings = Inr (Some g)"
    and grp: "\<forall>s. severity_group g s = filter (\<lambda>f. severity f = PStr s) all_findings"
    by blast
  from r assms(1,2,3,5) have "dependencies_main fs [prog, root] = critical_high_exit (Some g)"
    by (simp add: dependencies_main_def load_pubspec_def Let_def)
  with critical_high_exit_groups [OF grp] show ?thesis by simp
qed

text \<open>A project without any matching file and without any configuration file.\<close>

lemma empty_scans:
  assumes "\<forall>pat. fs_glob fs root pat = []" and "\<forall>p. \<not> fs_exists fs p"
  shows "fst (secrets_scan_project fs root) =
           \<lparr>total_files_scanned = 0, total_findings = 0, findings = []\<rparr>"
    and "fst (storage_scan_project fs root) =
           \<lparr>total_files_scanned = 0, total_findings = 0, findings = []\<rparr>"
    and "fst (network_scan_project fs root) =
           \<lparr>total_files_scanned = 0, total_findings = 1, findings = [config_not_found]\<rparr>"
  using assms
  by (simp_all add: secrets_scan_project_def secrets_files_to_scan_def storage_scan_project_def
      scan_backup_configuration_def network_scan_project_def check_android_network_security_def
      check_ios_ats_configuration_def Let_def)

lemma config_not_found_medium: "\<not> critical_or_high config_not_found"
  by (simp add: critical_or_high_def severity_def dict_get_def config_not_found_def)

text \<open>
  Claim C1 as stated fails: on a project without any file the network scan reports one
  finding, the missing network security configuration, and the dependency script, which
  finds no \<open>pubspec.yaml\<close>, exits with status 1.
\<close>

theorem C1_counterexample:
  "fs_glob empty_project ''/app'' ''lib/**/*.dart'' = []
   \<and> total_files_scanned (fst (network_scan_project empty_project ''/app'')) = 0
   \<and> total_findings (fst (network_scan_project empty_project ''/app'')) = 1
   \<and> exit_status (dependencies_main empty_project [''check_dependencies.py'', ''/app'']) = 1"
  by (simp add: network_scan_project_def check_android_network_security_def
      check_ios_ats_configuration_def dependencies_main_def load_pubspec_def Let_def
      empty_project_def)

text \<open>
  Claim C1, amended.  When the report can be written, the secrets script and the storage
  script exit with status 1 if the scan has a finding and with status 0 if it has none.  The
  network script and the dependency script, when the scan has at least one finding, exit with
  status 1 if a finding is CRITICAL or HIGH and with status 0 otherwise; the dependency script
  exits with status 1 when \<open>pubspec.yaml\<close> is missing.  On a project where no glob matches and
  no file exists, the secrets scan and the storage scan give 0 files and 0 findings and their
  scripts exit with status 0; the network scan gives 0 files and one finding, the missing
  network security configuration of severity MEDIUM, and its script exits with status 0.
\<close>

theorem C1_exit_status_amended:
  "(fs_write fs (report_path root ''owasp_m1_secrets_scan.json'') = None \<longrightarrow>
      secrets_main fs [prog, root] =
        Exit (if 0 < total_findings (fst (secrets_scan_project fs root)) then 1 else 0))
   \<and> (fs_write fs (report_path root ''owasp_m9_storage_scan.json'') = None \<longrightarrow>
      storage_main fs [prog, root] =
        Exit (if 0 < total_findings (fst (storage_scan_project fs root)) then 1 else 0))
   \<and> (fs_write fs (report_path root ''owasp_m5_network_scan.json'') = None \<and>
       findings (fst (network_scan_project fs root)) \<noteq> [] \<longrightarrow>
      network_main fs [prog, root] =
        Exit (if \<exists>f \<in> set (findings (fst (network_scan_project fs root))). critical_or_high f
              then 1 else 0))
   \<and> (\<not> fs_exists fs (pubspec_path root) \<longrightarrow> dependencies_main fs [prog, root] = Exit 1)
   \<and> (fs_exists fs (pubspec_path root) \<and> fs_load_yaml fs (pubspec_path root) = Inr pubspec \<and>
       dependency_findings fs root pubspec = Inr all_findings \<and> all_findings \<noteq> [] \<and>
       fs_write fs (report_path root ''owasp_m2_dependencies_scan.json'') = None \<longrightarrow>
      dependencies_main fs [prog, root] =
        Exit (if \<exists>f \<in> set all_findings. critical_or_high f then 1 else 0))
   \<and> ((\<forall>pat. fs_glob fs root pat = []) \<and> (\<forall>p. \<not> fs_exists fs p) \<and> (\<forall>p. fs_write fs p = None) \<longrightarrow>
      fst (secrets_scan_project fs root) =
        \<lparr>total_files_scanned = 0, total_findings = 0, findings = []\<rparr> \<and>
      secrets_main fs [prog, root] = Exit 0 \<and>
      fst (storage_scan_project fs root) =
        \<lparr>total_files_scanned = 0, total_findings = 0, findings = []\<rparr> \<and>
      storage_main fs [prog, root] = Exit 0 \<and>
      fst (network_scan_project fs root) =
        \<lparr>total_files_scanned = 0, total_findings = 1, findings = [config_not_found]\<rparr> \<and>
      network_main fs [prog, root] = Exit 0)"
proof (intro conjI impI)
  show "secrets_main fs [prog, root] =
        Exit (if 0 < total_findings (fst (secrets_scan_project fs root)) then 1 else 0)"
    if "fs_write fs (report_path root ''owasp_m1_secrets_scan.json'') = None"
    using that by (rule secrets_main_exit)
next
  show "storage_main fs [prog, root] =
        Exit (if 0 < total_findings (fst (storage_scan_project fs root)) then 1 else 0)"
    if "fs_write fs (report_path root ''owasp_m9_storage_scan.json'') = None"
    using that by (rule storage_main_exit)
next
  show "network_main fs [prog, root] =
        Exit (if \<exists>f \<in> set (findings (fst (network_scan_project fs root))). critical_or_high f
              then 1 else 0)"
    if "fs_write fs (report_path root ''owasp_m5_network_scan.json'') = None \<and>
        findings (fst (network_scan_project fs root)) \<noteq> []"
    using that by (intro network_main_exit) simp_all
next
  show "dependencies_main fs [prog, root] = Exit 1" if "\<not> fs_exists fs (pubspec_path root)"
    using that by (rule dependencies_main_missing)
next
  show "dependencies_main fs [prog, root] =
        Exit (if \<exists>f \<in> set all_findings. critical_or_high f then 1 else 0)"
    if "fs_exists fs (pubspec_path root) \<and> fs_load_yaml fs (pubspec_path root) = Inr pubspec \<and>
        dependency_findings fs root pubspec = Inr all_findings \<and> all_findings \<noteq> [] \<and>
        fs_write fs (report_path root ''owasp_m2_dependencies_scan.json'') = None"
    using that by (intro dependencies_main_exit [of fs root pubspec]) simp_all
next
  assume e: "(\<forall>pat. fs_glob fs root pat = []) \<and> (\<forall>p. \<not> fs_exists fs p) \<and> (\<forall>p. fs_write fs p = None)"
  then have g: "\<forall>pat. fs_glob fs root pat = []" and x: "\<forall>p. \<not> fs_exists fs p"
    and w: "\<And>p. fs_write fs p = None" by simp_all
  note scans = empty_scans [OF g x]
  show "fst (secrets_scan_project fs root) =
        \<lparr>total_files_scanned = 0, total_findings = 0, findings = []\<rparr>" by (rule scans(1))
  show "fst (storage_scan_project fs root) =
        \<lparr>total_files_scanned = 0, total_findings = 0, findings = []\<rparr>" by (rule scans(2))
  show "fst (network_scan_project fs root) =
        \<lparr>total_files_scanned = 0, total_findings = 1, findings = [config_not_found]\<rparr>"
    by (rule scans(3))
  show "secrets_main fs [prog, root] = Exit 0"
    using secrets_main_exit [of fs root prog, OF w] scans(1) by simp
  show "storage_main fs [prog, root] = Exit 0"
    using storage_main_exit [of fs root prog, OF w] scans(2) by simp
  show "network_main fs [prog, root] = Exit 0"
    using network_main_exit [of fs root prog, OF w] scans(3) config_not_found_medium by simp
qed

theorem C1_witness:
  "secrets_main empty_project [''scan_hardcoded_secrets.py'', ''/app''] = Exit 0
   \<and> storage_main empty_project [''analyze_storage_security.py'', ''/app''] = Exit 0
   \<and> network_main empty_project [''check_network_security.py'', ''/app''] = Exit 0
   \<and> findings (fst (network_scan_project empty_project ''/app'')) = [config_not_found]
   \<and> dependencies_main empty_project [''check_dependencies.py'', ''/app''] = Exit 1
   \<and> fs_exists sample_project (pubspec_path ''/app'')
   \<and> length (findings (fst (storage_scan_project sample_project ''/app''))) = 2
   \<and> storage_main sample_project [''analyze_storage_security.py'', ''/app''] = Exit 1
   \<and> dependencies_main sample_project [''check_dependencies.py'', ''/app''] = Exit 1"
proof -
  have e: "(\<forall>pat. fs_glob empty_project ''/app'' pat = []) \<and> (\<forall>p. \<not> fs_exists empty_project p) \<and>
           (\<forall>p. fs_write empty_project p = None)"
    by (simp add: empty_project_def)
  have m: "\<not> fs_exists empty_project (pubspec_path ''/app'')"
    by (simp add: empty_project_def)
  have x: "fs_exists sample_project (pubspec_path ''/app'')"
    by (simp add: sample_project_def app_paths)
  have w: "fs_write sample_project (report_path ''/app'' ''owasp_m9_storage_scan.json'') = None"
    by (simp add: sample_project_def)
  have n: "length (findings (fst (storage_scan_project sample_project ''/app''))) = 2"
    by code_simp
  have t: "total_findings (fst (storage_scan_project sample_project ''/app'')) = 2"
    using n by (simp add: storage_scan_project_def Let_def)
  note empty = C1_exit_status_amended [of empty_project "''/app''" _ PNone "[]"]
  note sample = C1_exit_status_amended [of sample_project "''/app''"
      "''analyze_storage_security.py''" PNone "[]"]
  from empty [of "''scan_hardcoded_secrets.py''"] e
  have a: "secrets_main empty_project [''scan_hardcoded_secrets.py'', ''/app''] = Exit 0" by blast
  from empty [of "''analyze_storage_security.py''"] e
  have b: "storage_main empty_project [''analyze_storage_security.py'', ''/app''] = Exit 0" by blast
  from empty [of "''check_network_security.py''"] e
  have c: "network_main empty_project [''check_network_security.py'', ''/app''] = Exit 0"
    and c': "fst (network_scan_project empty_project ''/app'') =
        \<lparr>total_files_scanned = 0, total_findings = 1, findings = [config_not_found]\<rparr>"
    by blast+
  from empty [of "''check_dependencies.py''"] m
  have d: "dependencies_main empty_project [''check_dependencies.py'', ''/app''] = Exit 1" by blast
  from sample w t
  have s: "storage_main sample_project [''analyze_storage_security.py'', ''/app''] = Exit 1" by simp
  have y: "fs_load_yaml sample_project (pubspec_path ''/app'') =
             Inr (PDict [(''dependencies'', PDict [(''http'', PStr ''any'')])])"
    by (simp add: sample_project_def app_paths)
  have w': "fs_write sample_project (report_path ''/app'' ''owasp_m2_dependencies_scan.json'') = None"
    by (simp add: sample_project_def)
  have "(case dependency_findings sample_project ''/app''
                (PDict [(''dependencies'', PDict [(''http'', PStr ''any'')])]) of
           Inl e \<Rightarrow> False
         | Inr all_findings \<Rightarrow> all_findings \<noteq> [] \<and> list_ex critical_or_high all_findings)"
    by code_simp
  then obtain all_findings where
    k: "dependency_findings sample_project ''/app''
          (PDict [(''dependencies'', PDict [(''http'', PStr ''any'')])]) = Inr all_findings"
    and ne: "all_findings \<noteq> []" and ch: "\<exists>f \<in> set all_findings. critical_or_high f"
    by (auto split: sum.splits simp: list_ex_iff)
  from C1_exit_status_amended [of sample_project "''/app''" "''check_dependencies.py''"
      "PDict [(''dependencies'', PDict [(''http'', PStr ''any'')])]" all_findings] x y k ne w' ch
  have p: "dependencies_main sample_project [''check_dependencies.py'', ''/app''] = Exit 1"
    by simp
  from a b c c' d x n s p show ?thesis by simp
qed

end
